theory Spec2Isabelle
  imports Main "HOL-Library.AList" "HOL-Library.Sublist"
begin

section \<open>Python values and text\<close>

text \<open>
  The values an entry of the configuration dictionary can hold. Floats and containers
  are left out of the model.
\<close>

datatype pyval = PyNone | PyBool bool | PyInt int | PyStr string

definition digit_char :: "nat \<Rightarrow> char" where
  "digit_char d =
     (if d = 0 then CHR ''0'' else if d = 1 then CHR ''1'' else if d = 2 then CHR ''2''
      else if d = 3 then CHR ''3'' else if d = 4 then CHR ''4'' else if d = 5 then CHR ''5''
      else if d = 6 then CHR ''6'' else if d = 7 then CHR ''7'' else if d = 8 then CHR ''8''
      else CHR ''9'')"

fun str_nat :: "nat \<Rightarrow> string" where
  "str_nat n = (if n < 10 then [digit_char n] else str_nat (n div 10) @ [digit_char (n mod 10)])"

declare str_nat.simps [simp del]

definition str_int :: "int \<Rightarrow> string" where
  "str_int i = (if i < 0 then CHR ''-'' # str_nat (nat (- i)) else str_nat (nat i))"

text \<open>\<open>str(v)\<close>, which is also what an f-string puts for \<open>{v}\<close>.\<close>

fun py_str :: "pyval \<Rightarrow> string" where
  "py_str PyNone = ''None''"
| "py_str (PyBool b) = (if b then ''True'' else ''False'')"
| "py_str (PyInt i) = str_int i"
| "py_str (PyStr s) = s"

text \<open>\<open>v == s\<close> for a string literal \<open>s\<close>: only a string is equal to a string.\<close>

fun py_eq_str :: "pyval \<Rightarrow> string \<Rightarrow> bool" where
  "py_eq_str (PyStr t) s = (t = s)"
| "py_eq_str _ s = False"

text \<open>\<open>d.get(k, default)\<close>.\<close>

definition dict_get :: "('k \<rightharpoonup> 'v) \<Rightarrow> 'k \<Rightarrow> 'v \<Rightarrow> 'v" where
  "dict_get d k dflt = (case d k of None \<Rightarrow> dflt | Some v \<Rightarrow> v)"

text \<open>\<open>sep.join(xs)\<close>.\<close>

fun str_join :: "string \<Rightarrow> string list \<Rightarrow> string" where
  "str_join sep [] = []"
| "str_join sep [x] = x"
| "str_join sep (x # y # ys) = x @ sep @ str_join sep (y # ys)"

section \<open>Path text (posixpath)\<close>

type_synonym path = string

text \<open>One step of \<open>os.path.join\<close>: the loop body of \<open>posixpath.join\<close>.\<close>

definition join2 :: "path \<Rightarrow> path \<Rightarrow> path" where
  "join2 p b =
     (if b \<noteq> [] \<and> hd b = CHR ''/'' then b
      else if p = [] \<or> last p = CHR ''/'' then p @ b
      else p @ ''/'' @ b)"

definition os_path_join :: "path \<Rightarrow> path list \<Rightarrow> path" where
  "os_path_join a ps = foldl join2 a ps"

text \<open>
  \<open>posixpath.dirname\<close> and \<open>posixpath.basename\<close>: both cut the text after its last
  slash; \<open>dirname\<close> then strips the trailing slashes of the head unless the head is
  made of slashes only.
\<close>

definition basename :: "path \<Rightarrow> path" where
  "basename p = rev (takeWhile (\<lambda>c. c \<noteq> CHR ''/'') (rev p))"

definition rstrip_slash :: "path \<Rightarrow> path" where
  "rstrip_slash p = rev (dropWhile (\<lambda>c. c = CHR ''/'') (rev p))"

definition dirname :: "path \<Rightarrow> path" where
  "dirname p =
     (let head = rev (dropWhile (\<lambda>c. c \<noteq> CHR ''/'') (rev p))
      in if head \<noteq> [] \<and> \<not> list_all (\<lambda>c. c = CHR ''/'') head then rstrip_slash head else head)"

text \<open>The text cut at its slashes, as the kernel reads a path.\<close>

fun split_sep :: "path \<Rightarrow> string list" where
  "split_sep [] = [[]]"
| "split_sep (c # cs) =
     (if c = CHR ''/'' then [] # split_sep cs
      else (case split_sep cs of [] \<Rightarrow> [[c]] | x # xs \<Rightarrow> (c # x) # xs))"

text \<open>
  The place a path text names when it is read as text only, the way \<open>os.path.normpath\<close>
  reads it: its components from the root directory, with empty components and \<open>.\<close>
  skipped and \<open>..\<close> taking the last one away. The working directory of the process is
  the root directory, so that a relative text and the absolute one name the same place.
  The kernel does not read a text this way: it looks at every directory on the way (see
  \<open>locate\<close> below), and the two readings agree only where those directories exist.
\<close>

definition norm_step :: "string list \<Rightarrow> string \<Rightarrow> string list" where
  "norm_step acc c =
     (if c = [] \<or> c = ''.'' then acc else if c = ''..'' then butlast acc else acc @ [c])"

definition parts :: "path \<Rightarrow> string list" where
  "parts p = foldl norm_step [] (split_sep p)"

section \<open>The file system\<close>

text \<open>
  A tree of regular files (with their content) and directories (with their entries, in
  the order a directory listing gives them). Every directory can be read and written:
  permissions are not part of the model, and the operations below fail only where an
  entry is missing, is already there, or is a regular file where a directory is needed
  (and the other way round).
\<close>

datatype node = File string | Dir "(string \<times> node) list"

fun lookup :: "node \<Rightarrow> string list \<Rightarrow> node option" where
  "lookup t [] = Some t"
| "lookup t (x # xs) =
     (case t of File c \<Rightarrow> None
      | Dir es \<Rightarrow> (case map_of es x of None \<Rightarrow> None | Some s \<Rightarrow> lookup s xs))"

fun remove_at :: "string list \<Rightarrow> node \<Rightarrow> node" where
  "remove_at [] t = t"
| "remove_at [x] t = (case t of File c \<Rightarrow> File c | Dir es \<Rightarrow> Dir (AList.delete x es))"
| "remove_at (x # y # ys) t =
     (case t of File c \<Rightarrow> File c
      | Dir es \<Rightarrow> (case map_of es x of None \<Rightarrow> Dir es
                  | Some s \<Rightarrow> Dir (AList.update x (remove_at (y # ys) s) es)))"

text \<open>
  Writing a subtree at a place, with the directories on the way made where they are
  missing (as \<open>os.makedirs\<close> does); no result where a regular file is on the way.
\<close>

fun put_at :: "string list \<Rightarrow> node \<Rightarrow> node \<Rightarrow> node option" where
  "put_at [] new t = Some new"
| "put_at (x # xs) new t =
     (case t of File c \<Rightarrow> None
      | Dir es \<Rightarrow>
          (case map_of es x of
             None \<Rightarrow> map_option (\<lambda>s. Dir (es @ [(x, s)])) (put_at xs new (Dir []))
           | Some s \<Rightarrow> map_option (\<lambda>s'. Dir (AList.update x s' es)) (put_at xs new s)))"

fun is_dir :: "node \<Rightarrow> bool" where
  "is_dir (Dir es) = True"
| "is_dir (File c) = False"

definition dir_names :: "(string \<times> node) list \<Rightarrow> string list" where
  "dir_names es = map fst (filter (\<lambda>(n, t). is_dir t) es)"

definition file_names :: "(string \<times> node) list \<Rightarrow> string list" where
  "file_names es = map fst (filter (\<lambda>(n, t). \<not> is_dir t) es)"

text \<open>
  \<open>os.walk(top)\<close>, top down: one triple (directory path, names of its subdirectories,
  names of its other entries) for every directory of the subtree, the path of a
  subdirectory being \<open>os.path.join\<close> of its parent's path and its name.
\<close>

fun walk_node :: "path \<Rightarrow> node \<Rightarrow> (path \<times> string list \<times> string list) list"
  and walk_entries :: "path \<Rightarrow> (string \<times> node) list \<Rightarrow> (path \<times> string list \<times> string list) list"
  where
  "walk_node d (File c) = []"
| "walk_node d (Dir es) = (d, dir_names es, file_names es) # walk_entries d es"
| "walk_entries d [] = []"
| "walk_entries d (e # es) = walk_node (join2 d (fst e)) (snd e) @ walk_entries d es"

text \<open>The directory at a place with all its entries taken away.\<close>

fun empty_at :: "string list \<Rightarrow> node \<Rightarrow> node" where
  "empty_at [] t = (case t of File c \<Rightarrow> File c | Dir es \<Rightarrow> Dir [])"
| "empty_at (x # xs) t =
     (case t of File c \<Rightarrow> File c
      | Dir es \<Rightarrow> (case map_of es x of None \<Rightarrow> Dir es
                  | Some s \<Rightarrow> Dir (AList.update x (empty_at xs s) es)))"

subsection \<open>How the kernel reads a path text\<close>

text \<open>
  The kernel walks a path text component by component, from the root directory for an
  absolute text and from the working directory, which is the root directory here, for a
  relative one. Whatever the component, the place reached so far must be a directory:
  \<open>ENOTDIR\<close> when it is a regular file. An empty component and \<open>.\<close> stay there, \<open>..\<close>
  goes to the parent (the root directory is its own parent), and a name must be an entry
  of the directory: \<open>ENOENT\<close> when it is not. So \<open>x/..\<close> names nothing when \<open>x\<close> is
  missing or a regular file, and neither does \<open>f/\<close> for a regular file \<open>f\<close>. There are no
  symbolic links.
\<close>

datatype errno = ENOENT | ENOTDIR

fun locate :: "node \<Rightarrow> string list \<Rightarrow> string list \<Rightarrow> errno + string list" where
  "locate fs place [] = Inr place"
| "locate fs place (c # cs) =
     (case lookup fs place of
        None \<Rightarrow> Inl ENOENT
      | Some (File x) \<Rightarrow> Inl ENOTDIR
      | Some (Dir es) \<Rightarrow>
          if c = [] \<or> c = ''.'' then locate fs place cs
          else if c = ''..'' then locate fs (butlast place) cs
          else (case map_of es c of
                  None \<Rightarrow> Inl ENOENT
                | Some s \<Rightarrow> locate fs (place @ [c]) cs))"

text \<open>The place a path text names, or the error of the walk; the empty text names nothing.\<close>

definition resolve :: "node \<Rightarrow> path \<Rightarrow> errno + string list" where
  "resolve fs p = (if p = [] then Inl ENOENT else locate fs [] (split_sep p))"

text \<open>What the kernel finds at a path text.\<close>

definition stat :: "node \<Rightarrow> path \<Rightarrow> node option" where
  "stat fs p = (case resolve fs p of Inl e \<Rightarrow> None | Inr q \<Rightarrow> lookup fs q)"

text \<open>
  \<open>os.walk(top)\<close> gives nothing when \<open>top\<close> cannot be listed: the error of \<open>scandir\<close> is
  dropped.
\<close>

definition os_walk :: "node \<Rightarrow> path \<Rightarrow> (path \<times> string list \<times> string list) list" where
  "os_walk fs d = (case stat fs d of Some (Dir es) \<Rightarrow> walk_node d (Dir es) | _ \<Rightarrow> [])"

subsection \<open>Exceptions\<close>

text \<open>
  The exceptions of the library calls below: the subclasses of \<open>OSError\<close> with the file
  name they carry, \<open>shutil.SameFileError\<close> with the two names of its message, and any
  other exception, given by its text.
\<close>

datatype pyexc =
    FileNotFoundError path
  | NotADirectoryError path
  | IsADirectoryError path
  | FileExistsError path
  | BusyError path
  | InvalidArgumentError path
  | NotEmptyError path
  | SameFileError path path
  | OtherError string

text \<open>
  \<open>repr(s)\<close> of a text whose characters are code points below 256. The quote is the
  double quote when the text has a single quote and no double quote, and the single quote
  otherwise; the backslash and the quote are escaped, tab, newline and carriage return
  are written \<open>\t\<close>, \<open>\n\<close>, \<open>\r\<close>, and any other character that is not printable is
  written \<open>\xhh\<close>.
\<close>

definition hex_digit :: "nat \<Rightarrow> char" where
  "hex_digit n = ''0123456789abcdef'' ! (n mod 16)"

definition printable :: "char \<Rightarrow> bool" where
  "printable c =
     (let n = (of_char c :: nat) in (32 \<le> n \<and> n < 127) \<or> (161 \<le> n \<and> n \<noteq> 173))"

definition repr_char :: "char \<Rightarrow> char \<Rightarrow> string" where
  "repr_char q c =
     (if c = q \<or> c = CHR 0x5C then [CHR 0x5C, c]
      else if c = CHR 0x09 then [CHR 0x5C, CHR ''t'']
      else if c = CHR 0x0A then [CHR 0x5C, CHR ''n'']
      else if c = CHR 0x0D then [CHR 0x5C, CHR ''r'']
      else if printable c then [c]
      else [CHR 0x5C, CHR ''x'', hex_digit ((of_char c :: nat) div 16),
            hex_digit ((of_char c :: nat) mod 16)])"

definition py_repr :: "string \<Rightarrow> string" where
  "py_repr s =
     (let q = (if CHR 0x27 \<in> set s \<and> CHR 0x22 \<notin> set s then CHR 0x22 else CHR 0x27)
      in [q] @ concat (map (repr_char q) s) @ [q])"

text \<open>\<open>str(e)\<close>: for an \<open>OSError\<close>, the number, the message and \<open>repr\<close> of the file name.\<close>

fun str_exc :: "pyexc \<Rightarrow> string" where
  "str_exc (FileNotFoundError p) = ''[Errno 2] No such file or directory: '' @ py_repr p"
| "str_exc (NotADirectoryError p) = ''[Errno 20] Not a directory: '' @ py_repr p"
| "str_exc (IsADirectoryError p) = ''[Errno 21] Is a directory: '' @ py_repr p"
| "str_exc (FileExistsError p) = ''[Errno 17] File exists: '' @ py_repr p"
| "str_exc (BusyError p) = ''[Errno 16] Device or resource busy: '' @ py_repr p"
| "str_exc (InvalidArgumentError p) = ''[Errno 22] Invalid argument: '' @ py_repr p"
| "str_exc (NotEmptyError p) = ''[Errno 39] Directory not empty: '' @ py_repr p"
| "str_exc (SameFileError p q) = py_repr p @ '' and '' @ py_repr q @ '' are the same file''"
| "str_exc (OtherError s) = s"

text \<open>The exception a system call raises for the error of the walk.\<close>

definition os_error :: "errno \<Rightarrow> path \<Rightarrow> pyexc" where
  "os_error e p = (case e of ENOENT \<Rightarrow> FileNotFoundError p | ENOTDIR \<Rightarrow> NotADirectoryError p)"

subsection \<open>The library calls the manager makes\<close>

text \<open>
  Each call gives the exception it raises, if any, and the file system it leaves.
\<close>

definition os_path_exists :: "node \<Rightarrow> path \<Rightarrow> bool" where
  "os_path_exists fs p = (stat fs p \<noteq> None)"

definition os_path_isdir :: "node \<Rightarrow> path \<Rightarrow> bool" where
  "os_path_isdir fs p = (case stat fs p of Some (Dir es) \<Rightarrow> True | _ \<Rightarrow> False)"

text \<open>
  The system calls that work on the last component of a text, \<open>rmdir\<close>, \<open>mkdir\<close> and
  \<open>open\<close> for writing, take its trailing slashes away, walk to the directory of the
  last component and look at that component themselves.
\<close>

definition strip_trailing :: "string list \<Rightarrow> string list" where
  "strip_trailing cs = rev (dropWhile (\<lambda>c. c = []) (rev cs))"

text \<open>
  \<open>os.rmdir(p)\<close>: the root directory is busy, \<open>.\<close> is an invalid argument, \<open>..\<close> is not
  empty, and a directory is removed when it has no entry.
\<close>

definition os_rmdir :: "node \<Rightarrow> path \<Rightarrow> pyexc option \<times> node" where
  "os_rmdir fs p =
     (let cs = strip_trailing (split_sep p)
      in if p = [] then (Some (FileNotFoundError p), fs)
         else if cs = [] then (Some (BusyError p), fs)
         else (case locate fs [] (butlast cs) of
                 Inl e \<Rightarrow> (Some (os_error e p), fs)
               | Inr q \<Rightarrow>
                   (case lookup fs q of
                      None \<Rightarrow> (Some (FileNotFoundError p), fs)
                    | Some (File c) \<Rightarrow> (Some (NotADirectoryError p), fs)
                    | Some (Dir es) \<Rightarrow>
                        if last cs = ''.'' then (Some (InvalidArgumentError p), fs)
                        else if last cs = ''..'' then (Some (NotEmptyError p), fs)
                        else (case map_of es (last cs) of
                                None \<Rightarrow> (Some (FileNotFoundError p), fs)
                              | Some (File c) \<Rightarrow> (Some (NotADirectoryError p), fs)
                              | Some (Dir []) \<Rightarrow> (None, remove_at (q @ [last cs]) fs)
                              | Some (Dir (e # es')) \<Rightarrow> (Some (NotEmptyError p), fs)))))"

text \<open>
  \<open>shutil.rmtree(p)\<close>: \<open>lstat\<close> raises for a text that names nothing, listing a regular
  file raises \<open>NotADirectoryError\<close>; the entries of the directory are removed, all of
  them since nothing is protected here, and then \<open>os.rmdir(p)\<close> is called, which reads
  the text again, in the file system the removals have left.
\<close>

definition shutil_rmtree :: "node \<Rightarrow> path \<Rightarrow> pyexc option \<times> node" where
  "shutil_rmtree fs p =
     (case resolve fs p of
        Inl e \<Rightarrow> (Some (os_error e p), fs)
      | Inr q \<Rightarrow>
          (case lookup fs q of
             Some (Dir es) \<Rightarrow> os_rmdir (empty_at q fs) p
           | _ \<Rightarrow> (Some (NotADirectoryError p), fs)))"

text \<open>
  \<open>os.mkdir(p)\<close>: the directory of the last component must be there, and the last
  component must be a new name in it.
\<close>

definition os_mkdir :: "node \<Rightarrow> path \<Rightarrow> pyexc option \<times> node" where
  "os_mkdir fs p =
     (let cs = strip_trailing (split_sep p)
      in if p = [] then (Some (FileNotFoundError p), fs)
         else if cs = [] then (Some (FileExistsError p), fs)
         else (case locate fs [] (butlast cs) of
                 Inl e \<Rightarrow> (Some (os_error e p), fs)
               | Inr q \<Rightarrow>
                   (case lookup fs q of
                      None \<Rightarrow> (Some (FileNotFoundError p), fs)
                    | Some (File c) \<Rightarrow> (Some (NotADirectoryError p), fs)
                    | Some (Dir es) \<Rightarrow>
                        if last cs = ''.'' \<or> last cs = ''..'' \<or> map_of es (last cs) \<noteq> None
                        then (Some (FileExistsError p), fs)
                        else (case put_at (q @ [last cs]) (Dir []) fs of
                                None \<Rightarrow> (Some (NotADirectoryError p), fs)
                              | Some fs' \<Rightarrow> (None, fs')))))"

text \<open>
  \<open>os.makedirs(name)\<close>, as the library has it: the text is split at its last slash (a
  second time when it ends with one); when the head does not exist it is made first, a
  \<open>FileExistsError\<close> of that call being passed over, and nothing more is done when the
  tail is \<open>.\<close>; then \<open>os.mkdir(name)\<close> is called and what it raises is raised. An
  exception therefore carries the name of the directory that could not be made.
\<close>

function makedirs :: "node \<Rightarrow> path \<Rightarrow> pyexc option \<times> node" where
  "makedirs fs name =
     (let head = (if basename name = [] then dirname (dirname name) else dirname name);
          tail = (if basename name = [] then basename (dirname name) else basename name)
      in if head \<noteq> [] \<and> tail \<noteq> [] \<and> \<not> os_path_exists fs head then
           (case makedirs fs head of
              (None, fs1) \<Rightarrow> if tail = ''.'' then (None, fs1) else os_mkdir fs1 name
            | (Some (FileExistsError f), fs1) \<Rightarrow>
                if tail = ''.'' then (None, fs1) else os_mkdir fs1 name
            | (Some e, fs1) \<Rightarrow> (Some e, fs1))
         else os_mkdir fs name)"
  by pat_completeness auto

termination
proof (relation "measure (\<lambda>(fs, name). length name)")
  show "wf (measure (\<lambda>(fs, name). length name))" by simp
next
  fix fs :: node and name x xa :: path
  assume a: "x = (if basename name = [] then dirname (dirname name) else dirname name)"
    and b: "xa = (if basename name = [] then basename (dirname name) else basename name)"
    and c: "x \<noteq> [] \<and> xa \<noteq> [] \<and> \<not> os_path_exists fs x"
  have le: "length (dirname p) + length (basename p) \<le> length p" for p
  proof -
    have "length (rev (dropWhile (\<lambda>c. c \<noteq> CHR ''/'') (rev p))) + length (basename p) = length p"
      unfolding basename_def length_rev
      by (metis add.commute length_append length_rev takeWhile_dropWhile_id)
    moreover have "length (dirname p) \<le> length (rev (dropWhile (\<lambda>c. c \<noteq> CHR ''/'') (rev p)))"
      unfolding dirname_def Let_def rstrip_slash_def
      by (simp add: length_dropWhile_le)
    ultimately show ?thesis by linarith
  qed
  have "length x < length name"
  proof (cases "basename name = []")
    case False
    then have p: "0 < length (basename name)" by simp
    from a False have x: "x = dirname name" by simp
    from le[of name] p show ?thesis unfolding x by linarith
  next
    case True
    with b c have p: "0 < length (basename (dirname name))" by simp
    from a True have x: "x = dirname (dirname name)" by simp
    from le[of "dirname name"] le[of name] p show ?thesis unfolding x by linarith
  qed
  then show "((fs, x), fs, name) \<in> measure (\<lambda>(fs, name). length name)" by simp
qed

text \<open>
  \<open>shutil.copytree(src, dst)\<close>: the source is listed, the destination is made with
  \<open>os.makedirs\<close>, which refuses an existing one, and every listed entry is copied into
  it, a directory with a call of \<open>copytree\<close> that lists it at that moment. The copy of a
  source into a new directory of its own is the copy of the entries first listed. When
  the destination lies under a subdirectory the source already had, the copy of that
  subdirectory comes upon the destination and copies it into itself, deeper and deeper,
  until the interpreter or the kernel stops it: what is raised then and what is left on
  the disk is not computed here but taken from the parameter \<open>runaway\<close>.
\<close>

definition shutil_copytree ::
  "(node \<Rightarrow> path \<Rightarrow> path \<Rightarrow> string \<times> node) \<Rightarrow> node \<Rightarrow> path \<Rightarrow> path \<Rightarrow> pyexc option \<times> node" where
  "shutil_copytree runaway fs src dst =
     (case resolve fs src of
        Inl e \<Rightarrow> (Some (os_error e src), fs)
      | Inr qs \<Rightarrow>
          (case lookup fs qs of
             Some (Dir es) \<Rightarrow>
               (case makedirs fs dst of
                  (Some e, fs1) \<Rightarrow> (Some e, fs1)
                | (None, fs1) \<Rightarrow>
                    (case resolve fs1 dst of
                       Inl e \<Rightarrow> (Some (os_error e dst), fs1)
                     | Inr qd \<Rightarrow>
                         if length qs + 1 < length qd \<and> take (length qs) qd = qs \<and>
                            (case map_of es (qd ! length qs) of
                               Some (Dir es') \<Rightarrow> True | _ \<Rightarrow> False)
                         then (case runaway fs1 src dst of
                                 (msg, fs2) \<Rightarrow> (Some (OtherError msg), fs2))
                         else (case put_at qd (Dir es) fs1 of
                                 None \<Rightarrow> (Some (NotADirectoryError dst), fs1)
                               | Some fs2 \<Rightarrow> (None, fs2))))
           | _ \<Rightarrow> (Some (NotADirectoryError src), fs)))"

text \<open>
  Opening a file for writing, with the content it is given: a text that ends with a
  slash, \<open>.\<close>, \<open>..\<close> and an existing directory are refused with \<open>IsADirectoryError\<close>;
  the directory of the file must be there.
\<close>

definition write_file :: "node \<Rightarrow> path \<Rightarrow> string \<Rightarrow> pyexc option \<times> node" where
  "write_file fs p content =
     (let cs = strip_trailing (split_sep p)
      in if p = [] then (Some (FileNotFoundError p), fs)
         else if cs = [] then (Some (IsADirectoryError p), fs)
         else (case locate fs [] (butlast cs) of
                 Inl e \<Rightarrow> (Some (os_error e p), fs)
               | Inr q \<Rightarrow>
                   (case lookup fs q of
                      None \<Rightarrow> (Some (FileNotFoundError p), fs)
                    | Some (File c) \<Rightarrow> (Some (NotADirectoryError p), fs)
                    | Some (Dir es) \<Rightarrow>
                        if cs \<noteq> split_sep p \<or> last cs = ''.'' \<or> last cs = ''..''
                        then (Some (IsADirectoryError p), fs)
                        else (case map_of es (last cs) of
                                Some (Dir es') \<Rightarrow> (Some (IsADirectoryError p), fs)
                              | _ \<Rightarrow>
                                  (case put_at (q @ [last cs]) (File content) fs of
                                     None \<Rightarrow> (Some (NotADirectoryError p), fs)
                                   | Some fs' \<Rightarrow> (None, fs'))))))"

text \<open>
  \<open>shutil.copy(src, dst)\<close>: into the directory \<open>dst\<close> under the source's name when
  \<open>dst\<close> is a directory. \<open>copyfile\<close> refuses two texts that name the same file, then
  opens the source for reading and the destination for writing.
\<close>

definition shutil_copy :: "node \<Rightarrow> path \<Rightarrow> path \<Rightarrow> pyexc option \<times> node" where
  "shutil_copy fs src dst0 =
     (let dst = (if os_path_isdir fs dst0 then os_path_join dst0 [basename src] else dst0)
      in case resolve fs src of
           Inl e \<Rightarrow> (Some (os_error e src), fs)
         | Inr qs \<Rightarrow>
             if resolve fs dst = Inr qs then (Some (SameFileError src dst), fs)
             else (case lookup fs qs of
                     Some (File c) \<Rightarrow> write_file fs dst c
                   | _ \<Rightarrow> (Some (IsADirectoryError src), fs)))"

text \<open>\<open>os.chmod(p, 0o755)\<close>: the mode is not part of the model, the text must name something.\<close>

definition os_chmod :: "node \<Rightarrow> path \<Rightarrow> pyexc option" where
  "os_chmod fs p = (case resolve fs p of Inl e \<Rightarrow> Some (os_error e p) | Inr q \<Rightarrow> None)"

section \<open>The world the manager runs in\<close>

datatype level = Info | Warning | Error

text \<open>
  What \<open>subprocess.run(cmd, cwd=..., env=..., capture_output=True, text=True,
  check=False)\<close> comes to. Either it returns: the child ran to its end and its output was
  read as text (return code, standard output, standard error). Or it raises, and this in
  two ways: the child could not be started (no such binary or working directory, no
  permission, a file that cannot be executed), given by the text of the exception; or the
  child ran to its end, with the return code given, and its output could not be decoded
  as text, given by the text of the \<open>UnicodeDecodeError\<close>.
\<close>

datatype proc_outcome =
    Completed int string string
  | Not_started string
  | Undecodable int string

text \<open>
  The build tool is not part of the program: it is a parameter of the model, a function
  from the command line, the working directory, the environment and the file system to
  the outcome of the call and the file system the child leaves.
\<close>

type_synonym subprocess =
  "string list \<Rightarrow> path \<Rightarrow> (string \<rightharpoonup> string) \<Rightarrow> node \<Rightarrow> proc_outcome \<times> node"

text \<open>
  The state: the file system, the environment of the process (\<open>os.environ\<close>), the
  calls of \<open>subprocess.run\<close> made so far with what each was given and how it ended, and
  the messages logged so far. With them goes what the machine does with a copy that runs
  into itself (see \<open>shutil_copytree\<close>): the text of the exception and the file system
  left, for the file system, the source and the destination of the copy.
\<close>

record world =
  fs_root :: node
  environ :: "string \<rightharpoonup> string"
  proc_calls :: "(string list \<times> path \<times> (string \<rightharpoonup> string) \<times> proc_outcome) list"
  logged :: "(level \<times> string) list"
  runaway_copy :: "node \<Rightarrow> path \<Rightarrow> path \<Rightarrow> string \<times> node"

text \<open>
  Modelled from the spec: the module \<open>src.utils.logger\<close> is not among the sources; a call
  of \<open>logger.info\<close>, \<open>logger.warning\<close> or \<open>logger.error\<close> adds the message to the log
  and does nothing else.
\<close>

definition logger :: "level \<Rightarrow> string \<Rightarrow> world \<Rightarrow> world" where
  "logger lvl msg w = w\<lparr>logged := logged w @ [(lvl, msg)]\<rparr>"

section \<open>LocalManager\<close>

text \<open>
  The fields \<open>__init__\<close> sets, and \<open>module_file\<close>, the \<open>__file__\<close> of the module, which
  the Gradle branch reads.
\<close>

record local_manager =
  workspace_path :: path
  env_config :: "string \<rightharpoonup> pyval"
  build_relative_path :: path
  tmp_root :: path
  jdk8_home :: path
  jdk17_home :: path
  maven_home :: path
  gradle_home :: path
  module_file :: path

definition validate_tools :: "local_manager \<Rightarrow> world \<Rightarrow> world" where
  "validate_tools m w =
     foldl (\<lambda>w p. if \<not> os_path_exists (fs_root w) p
                   then logger Warning (''Tool path not found: '' @ p @
                          ''. Local execution might fail if this tool is needed.'') w
                   else w)
           w [jdk8_home m, jdk17_home m, maven_home m, gradle_home m]"

definition new_manager :: "path \<Rightarrow> path \<Rightarrow> (string \<rightharpoonup> pyval) \<Rightarrow> path \<Rightarrow> local_manager" where
  "new_manager file wp cfg rel =
     (let root = ''/data2/donggyu/benchmark/sec_code/tmp''
      in \<lparr>workspace_path = wp, env_config = cfg, build_relative_path = rel,
          tmp_root = root,
          jdk8_home = os_path_join root [''jdks'', ''temurin8''],
          jdk17_home = os_path_join root [''jdks'', ''temurin17''],
          maven_home = os_path_join root [''maven''],
          gradle_home = os_path_join root [''gradle''],
          module_file = file\<rparr>)"

text \<open>\<open>LocalManager(workspace_path, env_config, build_relative_path)\<close>.\<close>

definition init :: "path \<Rightarrow> path \<Rightarrow> (string \<rightharpoonup> pyval) \<Rightarrow> path \<Rightarrow> world \<Rightarrow> local_manager \<times> world" where
  "init file wp cfg rel w = (let m = new_manager file wp cfg rel in (m, validate_tools m w))"

subsection \<open>\<open>_clean_target_on_host\<close>\<close>

text \<open>The body of the loop, for one directory.\<close>

definition clean_one :: "world \<Rightarrow> path \<Rightarrow> world" where
  "clean_one w target_dir =
     (if os_path_exists (fs_root w) target_dir then
        (let w1 = logger Info (''Cleaning target directory: '' @ target_dir) w
         in case shutil_rmtree (fs_root w1) target_dir of
              (None, t) \<Rightarrow> w1\<lparr>fs_root := t\<rparr>
            | (Some e, t) \<Rightarrow>
                logger Warning (''Failed to clean target directory: '' @ str_exc e)
                  (w1\<lparr>fs_root := t\<rparr>))
      else w)"

definition clean_target_on_host :: "local_manager \<Rightarrow> world \<Rightarrow> world" where
  "clean_target_on_host m w =
     (let target_dir_mvn = os_path_join (workspace_path m) [build_relative_path m, ''target''];
          target_dir_gradle = os_path_join (workspace_path m) [build_relative_path m, ''build'']
      in foldl clean_one w [target_dir_mvn, target_dir_gradle])"

subsection \<open>\<open>_run_build\<close>\<close>

text \<open>
  The search of lines 108 to 113 and 132 to 137, which differ in the name only: the
  first directory of the walk that lists it among its files and whose own name is
  \<open>bin\<close>.
\<close>

definition search_bin :: "node \<Rightarrow> path \<Rightarrow> string \<Rightarrow> path option" where
  "search_bin fs home name =
     (case find (\<lambda>(root, dirs, files).
                   name \<in> set files \<and>
                   basename (dirname (os_path_join root [name])) = ''bin'')
                (os_walk fs home) of
        None \<Rightarrow> None
      | Some (root, dirs, files) \<Rightarrow> Some (os_path_join root [name]))"

text \<open>
  Lines 105 to 113 and 129 to 137: the binary at its usual place, \<open>bin\<close> under the
  installation, when something is there, and the result of the search otherwise.
\<close>

definition resolve_tool :: "node \<Rightarrow> path \<Rightarrow> string \<Rightarrow> path option" where
  "resolve_tool fs home name =
     (let bin_path = os_path_join home [''bin'', name]
      in if os_path_exists fs bin_path then Some bin_path else search_bin fs home name)"

text \<open>
  Lines 163 to 191: the search path is completed, the binary made executable and the
  command run. Both the \<open>chmod\<close> and the call are inside the \<open>try\<close>, whose handler
  takes every exception: the one of a child that could not be started and the one of an
  output that could not be decoded alike.
\<close>

definition launch ::
  "subprocess \<Rightarrow> string list \<Rightarrow> path \<Rightarrow> (string \<rightharpoonup> string) \<Rightarrow> string list \<Rightarrow> path \<Rightarrow> path \<Rightarrow>
   world \<Rightarrow> (pyexc + int \<times> string) \<times> world" where
  "launch proc cmd cwd env0 path_elements bin_path java_home w0 =
     (let env = env0(''PATH'' \<mapsto> str_join '':'' path_elements @ '':'' @ dict_get env0 ''PATH'' []);
          w1 = logger Info (''Command: '' @ str_join '' '' cmd) w0;
          w2 = logger Info (''JAVA_HOME: '' @ java_home) w1;
          w = logger Info (''CWD: '' @ cwd) w2
      in case os_chmod (fs_root w) bin_path of
           Some e \<Rightarrow> (Inr (- 1, str_exc e), logger Error (''Subprocess failed: '' @ str_exc e) w)
         | None \<Rightarrow>
             (case proc cmd cwd env (fs_root w) of
                (Completed rc out err, t) \<Rightarrow>
                  (Inr (rc, out @ [CHR 0x0A] @ err),
                   w\<lparr>fs_root := t,
                     proc_calls := proc_calls w @ [(cmd, cwd, env, Completed rc out err)]\<rparr>)
              | (Not_started msg, t) \<Rightarrow>
                  (Inr (- 1, msg),
                   logger Error (''Subprocess failed: '' @ msg)
                     (w\<lparr>fs_root := t,
                        proc_calls := proc_calls w @ [(cmd, cwd, env, Not_started msg)]\<rparr>))
              | (Undecodable rc msg, t) \<Rightarrow>
                  (Inr (- 1, msg),
                   logger Error (''Subprocess failed: '' @ msg)
                     (w\<lparr>fs_root := t,
                        proc_calls := proc_calls w @ [(cmd, cwd, env, Undecodable rc msg)]\<rparr>))))"

definition run_build :: "subprocess \<Rightarrow> local_manager \<Rightarrow> world \<Rightarrow> (pyexc + int \<times> string) \<times> world" where
  "run_build proc m w0 =
     (let w = logger Info ''Running build locally...'' w0;
          build_tool = dict_get (env_config m) ''build_tool'' (PyStr ''maven'');
          jdk_version = dict_get (env_config m) ''jdk_version'' (PyInt 8);
          java_home = (if py_str jdk_version = ''17'' then jdk17_home m else jdk8_home m);
          env = (environ w)(''JAVA_HOME'' \<mapsto> java_home);
          path_elements = [os_path_join java_home [''bin'']];
          cwd = os_path_join (workspace_path m) [build_relative_path m]
      in if py_eq_str build_tool ''gradle'' then
           (case resolve_tool (fs_root w) (gradle_home m) ''gradle'' of
                 None \<Rightarrow> (Inr (- 1, ''Gradle binary not found in '' @ gradle_home m), w)
               | Some gradle_bin_path \<Rightarrow>
                   (let cmd = [gradle_bin_path, ''compileJava'', ''-x'', ''test'', ''--stacktrace'', ''--info''];
                        init_gradle_src =
                          os_path_join (dirname (module_file m)) [''templates'', ''init.gradle''];
                        elems = path_elements @ [dirname gradle_bin_path]
                    in if os_path_exists (fs_root w) init_gradle_src then
                         (let init_gradle_dst = os_path_join (workspace_path m) [''init.gradle'']
                          in case shutil_copy (fs_root w) init_gradle_src init_gradle_dst of
                               (Some e, t) \<Rightarrow> (Inl e, w\<lparr>fs_root := t\<rparr>)
                             | (None, t) \<Rightarrow>
                                 launch proc (cmd @ [''--init-script'', init_gradle_dst]) cwd env
                                   elems gradle_bin_path java_home (w\<lparr>fs_root := t\<rparr>))
                       else launch proc cmd cwd env elems gradle_bin_path java_home w))
         else if py_eq_str build_tool ''maven'' then
           (case resolve_tool (fs_root w) (maven_home m) ''mvn'' of
                 None \<Rightarrow> (Inr (- 1, ''Maven binary not found in '' @ maven_home m), w)
               | Some mvn_bin_path \<Rightarrow>
                   (let cmd0 = [mvn_bin_path, ''package'', ''-DskipTests'', ''-T'', ''1C''];
                        distribution_path = os_path_join cwd [''distribution''];
                        exclusions = (if os_path_exists (fs_root w) distribution_path
                                      then [''!distribution''] else []);
                        cmd1 = (if exclusions \<noteq> [] then cmd0 @ [''-pl'', str_join '','' exclusions]
                                else cmd0);
                        cmd2 = cmd1 @ [''-Dskip.npm=true'', ''-Dskip.node=true'',
                                       ''-Dskip.installnodenpm=true''];
                        settings_xml = os_path_join (workspace_path m) [''settings.xml''];
                        cmd = (if os_path_exists (fs_root w) settings_xml
                               then cmd2 @ [''-s'', settings_xml] else cmd2);
                        elems = path_elements @ [dirname mvn_bin_path]
                    in launch proc cmd cwd env elems mvn_bin_path java_home w))
         else (Inr (- 1, ''Unknown build tool: '' @ py_str build_tool), w))"

subsection \<open>\<open>_extract_artifacts\<close>\<close>

text \<open>
  The removal of an existing destination is before the \<open>try\<close>: what it raises leaves the
  method. What the copy raises is caught and logged.
\<close>

definition extract_artifacts :: "local_manager \<Rightarrow> path \<Rightarrow> world \<Rightarrow> pyexc option \<times> world" where
  "extract_artifacts m output_path w0 =
     (let w = logger Info ''Extracting artifacts...'' w0;
          source_classes_mvn =
            os_path_join (workspace_path m) [build_relative_path m, ''target'', ''classes''];
          source_classes_gradle =
            os_path_join (workspace_path m)
              [build_relative_path m, ''build'', ''classes'', ''java'', ''main''];
          source_classes_gradle_legacy =
            os_path_join (workspace_path m) [build_relative_path m, ''build'', ''classes'', ''main''];
          source_classes =
            (if os_path_exists (fs_root w) source_classes_mvn then Some source_classes_mvn
             else if os_path_exists (fs_root w) source_classes_gradle then Some source_classes_gradle
             else if os_path_exists (fs_root w) source_classes_gradle_legacy
                  then Some source_classes_gradle_legacy
             else None)
      in case source_classes of
           None \<Rightarrow>
             (None, logger Warning (''No classes found at '' @ source_classes_mvn @ '' or '' @
                                     source_classes_gradle) w)
         | Some src \<Rightarrow>
             (let dest_classes = os_path_join output_path [''classes'']
              in case (if os_path_exists (fs_root w) dest_classes
                       then shutil_rmtree (fs_root w) dest_classes else (None, fs_root w)) of
                   (Some e, t) \<Rightarrow> (Some e, w\<lparr>fs_root := t\<rparr>)
                 | (None, t) \<Rightarrow>
                     (case shutil_copytree (runaway_copy w) t src dest_classes of
                        (None, t') \<Rightarrow>
                          (None, logger Info (''Artifacts extracted to '' @ dest_classes)
                                   (w\<lparr>fs_root := t'\<rparr>))
                      | (Some e, t') \<Rightarrow>
                          (None, logger Error (''Failed to extract artifacts: '' @ str_exc e)
                                   (w\<lparr>fs_root := t'\<rparr>)))))"

subsection \<open>\<open>execute\<close>\<close>

text \<open>
  \<open>output_path\<close> is \<open>None\<close> or a text; \<open>if output_path\<close> holds for a text that is not
  empty.
\<close>

definition execute ::
  "subprocess \<Rightarrow> local_manager \<Rightarrow> path option \<Rightarrow> world \<Rightarrow> (bool \<times> string) \<times> world" where
  "execute proc m output_path w0 =
     (let w1 = clean_target_on_host m w0
      in case run_build proc m w1 of
           (Inl e, w2) \<Rightarrow>
             ((False, str_exc e),
              logger Error (''Execution failed with exception: '' @ str_exc e) w2)
         | (Inr (exit_code, build_logs), w2) \<Rightarrow>
             if exit_code = 0 then
               (case output_path of
                  None \<Rightarrow> ((True, build_logs), w2)
                | Some dest \<Rightarrow>
                    if dest = [] then ((True, build_logs), w2)
                    else (case extract_artifacts m dest w2 of
                            (None, w3) \<Rightarrow> ((True, build_logs), w3)
                          | (Some e, w3) \<Rightarrow>
                              ((False, str_exc e),
                               logger Error (''Execution failed with exception: '' @ str_exc e) w3)))
             else ((False, build_logs), w2))"

section \<open>Notions the properties are stated with\<close>

text \<open>The calls of \<open>subprocess.run\<close> made between two states.\<close>

definition new_calls ::
  "world \<Rightarrow> world \<Rightarrow> (string list \<times> path \<times> (string \<rightharpoonup> string) \<times> proc_outcome) list" where
  "new_calls w w' = drop (length (proc_calls w)) (proc_calls w')"

text \<open>The parts of a recorded call.\<close>

definition call_cmd :: "string list \<times> path \<times> (string \<rightharpoonup> string) \<times> proc_outcome \<Rightarrow> string list" where
  "call_cmd c = fst c"

definition call_cwd :: "string list \<times> path \<times> (string \<rightharpoonup> string) \<times> proc_outcome \<Rightarrow> path" where
  "call_cwd c = fst (snd c)"

definition call_env :: "string list \<times> path \<times> (string \<rightharpoonup> string) \<times> proc_outcome \<Rightarrow> (string \<rightharpoonup> string)" where
  "call_env c = fst (snd (snd c))"

definition call_outcome :: "string list \<times> path \<times> (string \<rightharpoonup> string) \<times> proc_outcome \<Rightarrow> proc_outcome" where
  "call_outcome c = snd (snd (snd c))"

text \<open>
  The binary of the configured backend, as lines 103 to 139 resolve it; none for an
  unknown backend.
\<close>

definition configured_binary :: "local_manager \<Rightarrow> node \<Rightarrow> path option" where
  "configured_binary m fs =
     (let build_tool = dict_get (env_config m) ''build_tool'' (PyStr ''maven'')
      in if py_eq_str build_tool ''gradle'' then resolve_tool fs (gradle_home m) ''gradle''
         else if py_eq_str build_tool ''maven'' then resolve_tool fs (maven_home m) ''mvn''
         else None)"

text \<open>What \<open>_run_build\<close> returns for an outcome of \<open>subprocess.run\<close>.\<close>

definition result_of :: "proc_outcome \<Rightarrow> pyexc + int \<times> string" where
  "result_of out =
     (case out of Completed rc so se \<Rightarrow> Inr (rc, so @ [CHR 0x0A] @ se)
      | Not_started msg \<Rightarrow> Inr (- 1, msg)
      | Undecodable rc msg \<Rightarrow> Inr (- 1, msg))"

text \<open>The search path given to the child: the new elements, then the inherited value.\<close>

definition path_value :: "(string \<rightharpoonup> string) \<Rightarrow> string list \<Rightarrow> string" where
  "path_value env0 elems = str_join '':'' elems @ '':'' @ dict_get env0 ''PATH'' []"

text \<open>The JDK the configuration selects.\<close>

definition chosen_java_home :: "local_manager \<Rightarrow> path" where
  "chosen_java_home m =
     (if py_str (dict_get (env_config m) ''jdk_version'' (PyInt 8)) = ''17''
      then jdk17_home m else jdk8_home m)"

text \<open>
  A name a directory entry can have, and a tree all of whose entries have such names,
  no two entries of a directory sharing one.
\<close>

definition valid_name :: "string \<Rightarrow> bool" where
  "valid_name n = (n \<noteq> [] \<and> CHR ''/'' \<notin> set n \<and> n \<noteq> ''.'' \<and> n \<noteq> ''..'')"

fun wf_node :: "node \<Rightarrow> bool"
  and wf_entries :: "(string \<times> node) list \<Rightarrow> bool"
  where
  "wf_node (File c) = True"
| "wf_node (Dir es) = (distinct (map fst es) \<and> wf_entries es)"
| "wf_entries [] = True"
| "wf_entries (e # es) = (valid_name (fst e) \<and> wf_node (snd e) \<and> wf_entries es)"


text \<open>
  The command lines of the two backends, as the interface gives them: the fixed words and
  the optional ones.
\<close>

definition maven_command_line :: "path \<Rightarrow> bool \<Rightarrow> path option \<Rightarrow> string list" where
  "maven_command_line bin excl settings =
     [bin, ''package'', ''-DskipTests'', ''-T'', ''1C''] @
     (if excl then [''-pl'', ''!distribution''] else []) @
     [''-Dskip.npm=true'', ''-Dskip.node=true'', ''-Dskip.installnodenpm=true''] @
     (case settings of None \<Rightarrow> [] | Some s \<Rightarrow> [''-s'', s])"

definition gradle_command_line :: "path \<Rightarrow> path option \<Rightarrow> string list" where
  "gradle_command_line bin script =
     [bin, ''compileJava'', ''-x'', ''test'', ''--stacktrace'', ''--info''] @
     (case script of None \<Rightarrow> [] | Some s \<Rightarrow> [''--init-script'', s])"

text \<open>What one call of the run step adds to the record of calls.\<close>

definition one_call ::
  "subprocess \<Rightarrow> local_manager \<Rightarrow> world \<Rightarrow> (pyexc + int \<times> string) \<Rightarrow> world \<Rightarrow> bool" where
  "one_call proc m w r w' =
     (\<exists>cmd fs0. cmd \<noteq> [] \<and> configured_binary m (fs_root w) = Some (hd cmd) \<and>
        (let d = os_path_join (workspace_path m) [build_relative_path m];
             env1 = (environ w)(''JAVA_HOME'' \<mapsto> chosen_java_home m);
             env = env1(''PATH'' \<mapsto>
                     path_value env1 [os_path_join (chosen_java_home m) [''bin''], dirname (hd cmd)])
         in proc_calls w' = proc_calls w @ [(cmd, d, env, fst (proc cmd d env fs0))] \<and>
            r = result_of (fst (proc cmd d env fs0))))"

text \<open>
  A regular file called \<open>name\<close> in a directory called \<open>bin\<close>, which is reached from
  the installation directory \<open>home\<close> by the names \<open>ns\<close>.
\<close>

definition nested_tool :: "node \<Rightarrow> path \<Rightarrow> string \<Rightarrow> string list \<Rightarrow> bool" where
  "nested_tool fs home name ns =
     (ns \<noteq> [] \<and> last ns = ''bin'' \<and>
      (case resolve fs home of
         Inl e \<Rightarrow> False
       | Inr q \<Rightarrow> (case lookup fs (q @ ns @ [name]) of Some (File c) \<Rightarrow> True | _ \<Rightarrow> False)))"

section \<open>A small installation, for the examples\<close>

text \<open>A machine on which a copy that runs into itself is stopped before it writes.\<close>

definition no_runaway :: "node \<Rightarrow> path \<Rightarrow> path \<Rightarrow> string \<times> node" where
  "no_runaway fs src dst = (''maximum recursion depth exceeded'', fs)"

definition tools_dir :: node where
  "tools_dir =
     Dir [(''jdks'', Dir [(''temurin8'', Dir []), (''temurin17'', Dir [])]),
          (''maven'', Dir [(''bin'', Dir [(''mvn'', File ''#!/bin/sh'')])]),
          (''gradle'', Dir [(''gradle-8.5'', Dir [(''bin'', Dir [(''gradle'', File ''#!/bin/sh'')])])])]"

definition under_tmp :: "node \<Rightarrow> (string \<times> node)" where
  "under_tmp t =
     (''data2'', Dir [(''donggyu'', Dir [(''benchmark'', Dir [(''sec_code'',
        Dir [(''tmp'', t)])])])])"

text \<open>
  A Maven workspace \<open>/ws\<close> with stale output of both backends, a \<open>distribution\<close> module
  and a settings file, and a destination \<open>/out\<close> holding the classes of an earlier
  project.
\<close>

definition demo_fs :: node where
  "demo_fs =
     Dir [under_tmp tools_dir,
          (''ws'', Dir [(''pom.xml'', File ''<project/>''),
                       (''settings.xml'', File ''<settings/>''),
                       (''distribution'', Dir []),
                       (''target'', Dir [(''classes'', Dir [(''Old.class'', File ''old'')])]),
                       (''build'', Dir [(''classes'', Dir [(''java'', Dir [(''main'', Dir [])])])])]),
          (''out'', Dir [(''classes'', Dir [(''B.class'', File ''B'')])])]"

definition demo_world :: world where
  "demo_world =
     \<lparr>fs_root = demo_fs, environ = [''PATH'' \<mapsto> ''/usr/bin'', ''HOME'' \<mapsto> ''/root''],
      proc_calls = [], logged = [], runaway_copy = no_runaway\<rparr>"

text \<open>
  A build that succeeds: it writes one class under \<open>target/classes\<close> of its working
  directory and ends with return code 0.
\<close>

definition demo_proc :: subprocess where
  "demo_proc cmd cwd env fs =
     (case put_at (parts cwd @ [''target'', ''classes'']) (Dir [(''A.class'', File ''A'')]) fs of
        None \<Rightarrow> (Completed 1 [] ''cannot write'', fs)
      | Some fs' \<Rightarrow> (Completed 0 ''BUILD SUCCESS'' [], fs'))"

text \<open>
  A build that fails, a build tool that cannot be started, and a build that ends with
  return code 0 after printing a byte that is not UTF-8.
\<close>

definition failing_proc :: subprocess where
  "failing_proc cmd cwd env fs = (Completed 1 ''BUILD FAILURE'' ''error: missing symbol'', fs)"

definition broken_proc :: subprocess where
  "broken_proc cmd cwd env fs = (Not_started ''[Errno 8] Exec format error'', fs)"

definition garbled_proc :: subprocess where
  "garbled_proc cmd cwd env fs =
     (Undecodable 0 ([CHR 0x27] @ ''utf-8'' @ [CHR 0x27] @ '' codec can'' @ [CHR 0x27] @
        ''t decode byte 0xff in position 0: invalid start byte''), fs)"

text \<open>
  A workspace where \<open>distribution\<close> is a regular file and \<open>settings.xml\<close> is a
  directory.
\<close>

definition odd_fs :: node where
  "odd_fs =
     Dir [under_tmp tools_dir,
          (''ws'', Dir [(''pom.xml'', File ''<project/>''),
                       (''distribution'', File ''notes''),
                       (''settings.xml'', Dir [])])]"

definition odd_world :: world where
  "odd_world =
     \<lparr>fs_root = odd_fs, environ = Map.empty, proc_calls = [], logged = [],
      runaway_copy = no_runaway\<rparr>"

text \<open>The demonstration workspace with a destination where \<open>classes\<close> is a regular file.\<close>

definition blocked_fs :: node where
  "blocked_fs =
     Dir [under_tmp tools_dir,
          (''ws'', Dir [(''pom.xml'', File ''<project/>'')]),
          (''out'', Dir [(''classes'', File ''not a directory'')])]"

definition blocked_world :: world where
  "blocked_world =
     \<lparr>fs_root = blocked_fs, environ = Map.empty, proc_calls = [], logged = [],
      runaway_copy = no_runaway\<rparr>"



text \<open>A machine with nothing installed.\<close>

definition bare_world :: world where
  "bare_world =
     \<lparr>fs_root = Dir [], environ = Map.empty, proc_calls = [], logged = [],
      runaway_copy = no_runaway\<rparr>"


definition demo_manager :: "(string \<rightharpoonup> pyval) \<Rightarrow> local_manager" where
  "demo_manager cfg = new_manager ''/app/src/execution/local_manager.py'' ''/ws'' cfg []"


text \<open>
  A workspace where \<open>target/classes\<close> is a regular file and Gradle has left a tree of
  classes, with a destination that holds the classes of an earlier project.
\<close>

definition shadowed_fs :: node where
  "shadowed_fs =
     Dir [under_tmp tools_dir,
          (''ws'', Dir [(''pom.xml'', File ''<project/>''),
                       (''target'', Dir [(''classes'', File ''not a tree'')]),
                       (''build'', Dir [(''classes'', Dir [(''java'', Dir [(''main'',
                          Dir [(''G.class'', File ''G'')])])])])]),
          (''out'', Dir [(''classes'', Dir [(''B.class'', File ''B'')])])]"

definition shadowed_world :: world where
  "shadowed_world =
     \<lparr>fs_root = shadowed_fs, environ = Map.empty, proc_calls = [], logged = [],
      runaway_copy = no_runaway\<rparr>"

section \<open>Text of numbers\<close>

lemma str_nat_length: "n \<ge> 10 \<Longrightarrow> length (str_nat n) \<ge> 2"
  by (subst str_nat.simps, subst str_nat.simps) (simp)

lemma digit_char_7: "d < 10 \<Longrightarrow> digit_char d = CHR ''7'' \<longleftrightarrow> d = 7"
  by (simp add: digit_char_def)

lemma digit_char_1: "d < 10 \<Longrightarrow> digit_char d = CHR ''1'' \<longleftrightarrow> d = 1"
  by (simp add: digit_char_def)

lemma digit_char_not_minus: "digit_char d \<noteq> CHR ''-''"
  by (simp add: digit_char_def)

lemma str_nat_17: "str_nat n = ''17'' \<longleftrightarrow> n = 17"
proof
  assume h: "str_nat n = ''17''"
  show "n = 17"
  proof (cases "n < 10")
    case True
    with h show ?thesis by (simp add: str_nat.simps)
  next
    case False
    then have e: "str_nat (n div 10) @ [digit_char (n mod 10)] = ''17''"
      using h by (subst (asm) str_nat.simps) simp
    then have a: "str_nat (n div 10) = ''1''" and b: "digit_char (n mod 10) = CHR ''7''"
      by (auto simp: append_eq_Cons_conv Cons_eq_append_conv)
    have "n div 10 < 10"
    proof (rule ccontr)
      assume "\<not> n div 10 < 10"
      then have "length (str_nat (n div 10)) \<ge> 2" using str_nat_length by simp
      with a show False by simp
    qed
    with a have "n div 10 = 1" by (simp add: str_nat.simps digit_char_1)
    moreover from b have "n mod 10 = 7" by (simp add: digit_char_7)
    ultimately show ?thesis by presburger
  qed
next
  assume "n = 17"
  then show "str_nat n = ''17''" by (simp add: str_nat.simps digit_char_def)
qed

lemma str_nat_hd: "str_nat n \<noteq> [] \<and> hd (str_nat n) \<noteq> CHR ''-''"
proof (induction n rule: str_nat.induct)
  case (1 n)
  show ?case
  proof (cases "n < 10")
    case True
    then show ?thesis by (simp add: str_nat.simps digit_char_not_minus)
  next
    case False
    with 1 show ?thesis by (subst str_nat.simps, subst (2) str_nat.simps) simp
  qed
qed

lemma py_str_17: "py_str v = ''17'' \<longleftrightarrow> v = PyStr ''17'' \<or> v = PyInt 17"
proof (cases v)
  case (PyInt i)
  show ?thesis
  proof (cases "i < 0")
    case True
    then show ?thesis using PyInt by (simp add: str_int_def)
  next
    case False
    then have "str_nat (nat i) = ''17'' \<longleftrightarrow> i = 17" unfolding str_nat_17 by arith
    with False PyInt show ?thesis by (auto simp: str_int_def)
  qed
qed auto

section \<open>What the run step does\<close>

lemma logger_simps [simp]:
  "fs_root (logger l s w) = fs_root w"
  "environ (logger l s w) = environ w"
  "proc_calls (logger l s w) = proc_calls w"
  "logged (logger l s w) = logged w @ [(l, s)]"
  by (simp_all add: logger_def)

lemma launch_cases:
  assumes "launch proc cmd cwd env0 elems bin jh w = (r, w')"
  shows "environ w' = environ w \<and>
         ((\<exists>e. r = Inr (- 1, str_exc e) \<and> os_chmod (fs_root w) bin = Some e \<and>
               proc_calls w' = proc_calls w \<and> fs_root w' = fs_root w) \<or>
          (os_chmod (fs_root w) bin = None \<and>
              proc_calls w' =
                proc_calls w @ [(cmd, cwd, env0(''PATH'' \<mapsto> path_value env0 elems),
                   fst (proc cmd cwd (env0(''PATH'' \<mapsto> path_value env0 elems)) (fs_root w)))] \<and>
              fs_root w' = snd (proc cmd cwd (env0(''PATH'' \<mapsto> path_value env0 elems)) (fs_root w)) \<and>
              r = result_of (fst (proc cmd cwd (env0(''PATH'' \<mapsto> path_value env0 elems)) (fs_root w)))))"
  using assms
  by (auto simp: launch_def Let_def path_value_def result_of_def
           split: option.splits prod.splits proc_outcome.splits)

lemma launch_one_call:
  assumes "launch proc cmd (os_path_join (workspace_path m) [build_relative_path m])
             ((environ w0)(''JAVA_HOME'' \<mapsto> chosen_java_home m))
             [os_path_join (chosen_java_home m) [''bin''], dirname bin] bin jh w = (r, w')"
    and "hd cmd = bin" "cmd \<noteq> []" "configured_binary m (fs_root w0) = Some bin"
    and "environ w = environ w0" "proc_calls w = proc_calls w0"
  shows "environ w' = environ w0 \<and> (proc_calls w' = proc_calls w0 \<or> one_call proc m w0 r w')"
proof -
  from launch_cases[OF assms(1)] assms(5,6)
  have e: "environ w' = environ w0" by simp
  from launch_cases[OF assms(1)] show ?thesis
  proof (elim conjE disjE exE)
    fix e assume "proc_calls w' = proc_calls w"
    with e assms(6) show ?thesis by simp
  next
    assume a: "proc_calls w' =
       proc_calls w @
       [(cmd, os_path_join (workspace_path m) [build_relative_path m],
         (environ w0)(''JAVA_HOME'' \<mapsto> chosen_java_home m,
            ''PATH'' \<mapsto> path_value ((environ w0)(''JAVA_HOME'' \<mapsto> chosen_java_home m))
                 [os_path_join (chosen_java_home m) [''bin''], dirname bin]),
         fst (proc cmd (os_path_join (workspace_path m) [build_relative_path m])
               ((environ w0)(''JAVA_HOME'' \<mapsto> chosen_java_home m,
                  ''PATH'' \<mapsto> path_value ((environ w0)(''JAVA_HOME'' \<mapsto> chosen_java_home m))
                       [os_path_join (chosen_java_home m) [''bin''], dirname bin]))
               (fs_root w)))]"
      and b: "r = result_of (fst (proc cmd (os_path_join (workspace_path m) [build_relative_path m])
               ((environ w0)(''JAVA_HOME'' \<mapsto> chosen_java_home m,
                  ''PATH'' \<mapsto> path_value ((environ w0)(''JAVA_HOME'' \<mapsto> chosen_java_home m))
                       [os_path_join (chosen_java_home m) [''bin''], dirname bin]))
               (fs_root w)))"
    have "one_call proc m w0 r w'"
      unfolding one_call_def Let_def
      apply (rule exI[of _ cmd], rule exI[of _ "fs_root w"])
      using a b assms(2,3,4,6) by simp
    with e show ?thesis by simp
  qed
qed

lemma run_build_unknown:
  assumes "\<not> py_eq_str (dict_get (env_config m) ''build_tool'' (PyStr ''maven'')) ''gradle''"
    and "\<not> py_eq_str (dict_get (env_config m) ''build_tool'' (PyStr ''maven'')) ''maven''"
  shows "run_build proc m w0 =
     (Inr (- 1, ''Unknown build tool: '' @ py_str (dict_get (env_config m) ''build_tool'' (PyStr ''maven''))),
      logger Info ''Running build locally...'' w0)"
  using assms by (simp add: run_build_def Let_def)

lemma run_build_maven:
  assumes "\<not> py_eq_str (dict_get (env_config m) ''build_tool'' (PyStr ''maven'')) ''gradle''"
    and "py_eq_str (dict_get (env_config m) ''build_tool'' (PyStr ''maven'')) ''maven''"
  shows "run_build proc m w0 =
     (case resolve_tool (fs_root w0) (maven_home m) ''mvn'' of
        None \<Rightarrow> (Inr (- 1, ''Maven binary not found in '' @ maven_home m),
                 logger Info ''Running build locally...'' w0)
      | Some bin \<Rightarrow>
          launch proc
            (maven_command_line bin
               (os_path_exists (fs_root w0)
                  (os_path_join (os_path_join (workspace_path m) [build_relative_path m]) [''distribution'']))
               (if os_path_exists (fs_root w0) (os_path_join (workspace_path m) [''settings.xml''])
                then Some (os_path_join (workspace_path m) [''settings.xml'']) else None))
            (os_path_join (workspace_path m) [build_relative_path m])
            ((environ w0)(''JAVA_HOME'' \<mapsto> chosen_java_home m))
            [os_path_join (chosen_java_home m) [''bin''], dirname bin] bin (chosen_java_home m)
            (logger Info ''Running build locally...'' w0))"
  using assms
  by (simp add: run_build_def Let_def chosen_java_home_def maven_command_line_def split: option.splits)

lemma run_build_gradle:
  assumes "py_eq_str (dict_get (env_config m) ''build_tool'' (PyStr ''maven'')) ''gradle''"
  shows "run_build proc m w0 =
     (case resolve_tool (fs_root w0) (gradle_home m) ''gradle'' of
        None \<Rightarrow> (Inr (- 1, ''Gradle binary not found in '' @ gradle_home m),
                 logger Info ''Running build locally...'' w0)
      | Some bin \<Rightarrow>
          if os_path_exists (fs_root w0)
               (os_path_join (dirname (module_file m)) [''templates'', ''init.gradle''])
          then (case shutil_copy (fs_root w0)
                       (os_path_join (dirname (module_file m)) [''templates'', ''init.gradle''])
                       (os_path_join (workspace_path m) [''init.gradle'']) of
                  (Some e, t) \<Rightarrow> (Inl e, (logger Info ''Running build locally...'' w0)\<lparr>fs_root := t\<rparr>)
                | (None, t) \<Rightarrow>
                    launch proc
                      (gradle_command_line bin (Some (os_path_join (workspace_path m) [''init.gradle''])))
                      (os_path_join (workspace_path m) [build_relative_path m])
                      ((environ w0)(''JAVA_HOME'' \<mapsto> chosen_java_home m))
                      [os_path_join (chosen_java_home m) [''bin''], dirname bin] bin (chosen_java_home m)
                      ((logger Info ''Running build locally...'' w0)\<lparr>fs_root := t\<rparr>))
          else launch proc (gradle_command_line bin None)
                 (os_path_join (workspace_path m) [build_relative_path m])
                 ((environ w0)(''JAVA_HOME'' \<mapsto> chosen_java_home m))
                 [os_path_join (chosen_java_home m) [''bin''], dirname bin] bin (chosen_java_home m)
                 (logger Info ''Running build locally...'' w0))"
  using assms
  by (simp add: run_build_def Let_def chosen_java_home_def gradle_command_line_def
           split: option.splits prod.splits)

lemma run_build_calls:
  assumes "run_build proc m w0 = (r, w')"
  shows "environ w' = environ w0 \<and> (proc_calls w' = proc_calls w0 \<or> one_call proc m w0 r w')"
proof (cases "py_eq_str (dict_get (env_config m) ''build_tool'' (PyStr ''maven'')) ''gradle''")
  case True
  then have cb: "configured_binary m (fs_root w0) = resolve_tool (fs_root w0) (gradle_home m) ''gradle''"
    by (simp add: configured_binary_def)
  show ?thesis
  proof (cases "resolve_tool (fs_root w0) (gradle_home m) ''gradle''")
    case None
    with assms True show ?thesis by (auto simp add: run_build_gradle)
  next
    case (Some bin)
    show ?thesis
    proof (cases "os_path_exists (fs_root w0)
               (os_path_join (dirname (module_file m)) [''templates'', ''init.gradle''])")
      case False
      with assms True Some have
        "launch proc (gradle_command_line bin None)
                 (os_path_join (workspace_path m) [build_relative_path m])
                 ((environ w0)(''JAVA_HOME'' \<mapsto> chosen_java_home m))
                 [os_path_join (chosen_java_home m) [''bin''], dirname bin] bin (chosen_java_home m)
                 (logger Info ''Running build locally...'' w0) = (r, w')"
        by (simp add: run_build_gradle)
      then show ?thesis
        by (rule launch_one_call) (simp_all add: gradle_command_line_def cb Some)
    next
      case ex: True
      obtain oe t where sc: "shutil_copy (fs_root w0)
                       (os_path_join (dirname (module_file m)) [''templates'', ''init.gradle''])
                       (os_path_join (workspace_path m) [''init.gradle'']) = (oe, t)"
        by (cases "shutil_copy (fs_root w0)
                       (os_path_join (dirname (module_file m)) [''templates'', ''init.gradle''])
                       (os_path_join (workspace_path m) [''init.gradle''])")
      show ?thesis
      proof (cases oe)
        case (Some e)
        with assms True \<open>resolve_tool (fs_root w0) (gradle_home m) ''gradle'' = Some bin\<close> ex sc
        show ?thesis by (auto simp add: run_build_gradle)
      next
        case None
        with assms True \<open>resolve_tool (fs_root w0) (gradle_home m) ''gradle'' = Some bin\<close> ex sc
        have "launch proc
                      (gradle_command_line bin (Some (os_path_join (workspace_path m) [''init.gradle''])))
                      (os_path_join (workspace_path m) [build_relative_path m])
                      ((environ w0)(''JAVA_HOME'' \<mapsto> chosen_java_home m))
                      [os_path_join (chosen_java_home m) [''bin''], dirname bin] bin (chosen_java_home m)
                      ((logger Info ''Running build locally...'' w0)\<lparr>fs_root := t\<rparr>) = (r, w')"
          by (simp add: run_build_gradle)
        then show ?thesis
          by (rule launch_one_call)
             (simp_all add: gradle_command_line_def cb \<open>resolve_tool (fs_root w0) (gradle_home m) ''gradle'' = Some bin\<close>)
      qed
    qed
  qed
next
  case ng: False
  show ?thesis
  proof (cases "py_eq_str (dict_get (env_config m) ''build_tool'' (PyStr ''maven'')) ''maven''")
    case False
    with ng assms show ?thesis by (auto simp add: run_build_unknown)
  next
    case True
    with ng have cb: "configured_binary m (fs_root w0) = resolve_tool (fs_root w0) (maven_home m) ''mvn''"
      by (simp add: configured_binary_def)
    show ?thesis
    proof (cases "resolve_tool (fs_root w0) (maven_home m) ''mvn''")
      case None
      with assms True ng show ?thesis by (auto simp add: run_build_maven)
    next
      case (Some bin)
      with assms True ng have "launch proc
            (maven_command_line bin
               (os_path_exists (fs_root w0)
                  (os_path_join (os_path_join (workspace_path m) [build_relative_path m]) [''distribution'']))
               (if os_path_exists (fs_root w0) (os_path_join (workspace_path m) [''settings.xml''])
                then Some (os_path_join (workspace_path m) [''settings.xml'']) else None))
            (os_path_join (workspace_path m) [build_relative_path m])
            ((environ w0)(''JAVA_HOME'' \<mapsto> chosen_java_home m))
            [os_path_join (chosen_java_home m) [''bin''], dirname bin] bin (chosen_java_home m)
            (logger Info ''Running build locally...'' w0) = (r, w')"
        by (simp add: run_build_maven)
      then show ?thesis
        by (rule launch_one_call) (simp_all add: maven_command_line_def cb Some)
    qed
  qed
qed

lemma new_calls_same: "proc_calls w' = proc_calls w \<Longrightarrow> new_calls w w' = []"
  by (simp add: new_calls_def)

lemma new_calls_one: "proc_calls w' = proc_calls w @ [c] \<Longrightarrow> new_calls w w' = [c]"
  by (simp add: new_calls_def)

lemma one_call_fields:
  assumes "one_call proc m w r w'" and "c \<in> set (new_calls w w')"
  shows "new_calls w w' = [c]"
    and "call_cmd c \<noteq> []"
    and "configured_binary m (fs_root w) = Some (hd (call_cmd c))"
    and "call_cwd c = os_path_join (workspace_path m) [build_relative_path m]"
    and "call_env c = (environ w)(''JAVA_HOME'' \<mapsto> chosen_java_home m,
            ''PATH'' \<mapsto> path_value ((environ w)(''JAVA_HOME'' \<mapsto> chosen_java_home m))
                [os_path_join (chosen_java_home m) [''bin''], dirname (hd (call_cmd c))])"
    and "\<exists>fs0. call_outcome c = fst (proc (call_cmd c) (call_cwd c) (call_env c) fs0)"
    and "r = result_of (call_outcome c)"
proof -
  from assms(1) obtain cmd fs0 where
    a: "cmd \<noteq> []" "configured_binary m (fs_root w) = Some (hd cmd)"
    and b: "proc_calls w' = proc_calls w @
         [(cmd, os_path_join (workspace_path m) [build_relative_path m],
           (environ w)(''JAVA_HOME'' \<mapsto> chosen_java_home m,
            ''PATH'' \<mapsto> path_value ((environ w)(''JAVA_HOME'' \<mapsto> chosen_java_home m))
                [os_path_join (chosen_java_home m) [''bin''], dirname (hd cmd)]),
           fst (proc cmd (os_path_join (workspace_path m) [build_relative_path m])
             ((environ w)(''JAVA_HOME'' \<mapsto> chosen_java_home m,
            ''PATH'' \<mapsto> path_value ((environ w)(''JAVA_HOME'' \<mapsto> chosen_java_home m))
                [os_path_join (chosen_java_home m) [''bin''], dirname (hd cmd)])) fs0))]"
    and r: "r = result_of (fst (proc cmd (os_path_join (workspace_path m) [build_relative_path m])
             ((environ w)(''JAVA_HOME'' \<mapsto> chosen_java_home m,
            ''PATH'' \<mapsto> path_value ((environ w)(''JAVA_HOME'' \<mapsto> chosen_java_home m))
                [os_path_join (chosen_java_home m) [''bin''], dirname (hd cmd)])) fs0))"
    unfolding one_call_def Let_def by blast
  from new_calls_one[OF b] assms(2)
  have c: "c = (cmd, os_path_join (workspace_path m) [build_relative_path m],
           (environ w)(''JAVA_HOME'' \<mapsto> chosen_java_home m,
            ''PATH'' \<mapsto> path_value ((environ w)(''JAVA_HOME'' \<mapsto> chosen_java_home m))
                [os_path_join (chosen_java_home m) [''bin''], dirname (hd cmd)]),
           fst (proc cmd (os_path_join (workspace_path m) [build_relative_path m])
             ((environ w)(''JAVA_HOME'' \<mapsto> chosen_java_home m,
            ''PATH'' \<mapsto> path_value ((environ w)(''JAVA_HOME'' \<mapsto> chosen_java_home m))
                [os_path_join (chosen_java_home m) [''bin''], dirname (hd cmd)])) fs0))"
    by simp
  show "new_calls w w' = [c]" using new_calls_one[OF b] c by simp
  show "call_cmd c \<noteq> []" using a c by (simp add: call_cmd_def)
  show "configured_binary m (fs_root w) = Some (hd (call_cmd c))" using a c by (simp add: call_cmd_def)
  show "call_cwd c = os_path_join (workspace_path m) [build_relative_path m]"
    using c by (simp add: call_cwd_def)
  show "call_env c = (environ w)(''JAVA_HOME'' \<mapsto> chosen_java_home m,
            ''PATH'' \<mapsto> path_value ((environ w)(''JAVA_HOME'' \<mapsto> chosen_java_home m))
                [os_path_join (chosen_java_home m) [''bin''], dirname (hd (call_cmd c))])"
    using c by (simp add: call_env_def call_cmd_def)
  show "\<exists>fs0. call_outcome c = fst (proc (call_cmd c) (call_cwd c) (call_env c) fs0)"
    unfolding c call_outcome_def call_cmd_def call_cwd_def call_env_def
    by (rule exI[of _ fs0]) simp
  show "r = result_of (call_outcome c)" using r c by (simp add: call_outcome_def)
qed

lemma run_build_one_call:
  assumes "c \<in> set (new_calls w (snd (run_build proc m w)))"
  shows "one_call proc m w (fst (run_build proc m w)) (snd (run_build proc m w))"
proof -
  obtain r w' where rw: "run_build proc m w = (r, w')" by (cases "run_build proc m w")
  from run_build_calls[OF rw] assms rw show ?thesis
    by (auto simp: new_calls_same)
qed

lemma run_build_environ: "environ (snd (run_build proc m w)) = environ w"
proof -
  obtain r w' where rw: "run_build proc m w = (r, w')" by (cases "run_build proc m w")
  from run_build_calls[OF rw] rw show ?thesis by simp
qed

section \<open>The properties\<close>

text \<open>
  Claim C2. Whatever the configuration holds under \<open>jdk_version\<close>, the environment of
  every child the run step starts has \<open>JAVA_HOME\<close> set to the JDK 17 home when the text
  of the value is \<open>17\<close>, and to the JDK 8 home for any other value and for no value.
  The text is \<open>17\<close> for the string \<open>"17"\<close> and the integer 17 only.
\<close>

theorem java_home_selection:
  assumes "c \<in> set (new_calls w (snd (run_build proc m w)))"
  shows "call_env c ''JAVA_HOME'' =
           Some (if py_str (dict_get (env_config m) ''jdk_version'' (PyInt 8)) = ''17''
                 then jdk17_home m else jdk8_home m) \<and>
         (py_str (dict_get (env_config m) ''jdk_version'' (PyInt 8)) = ''17'' \<longleftrightarrow>
            env_config m ''jdk_version'' = Some (PyStr ''17'') \<or>
            env_config m ''jdk_version'' = Some (PyInt 17))"
proof
  from one_call_fields(5)[OF run_build_one_call[OF assms] assms]
  show "call_env c ''JAVA_HOME'' =
           Some (if py_str (dict_get (env_config m) ''jdk_version'' (PyInt 8)) = ''17''
                 then jdk17_home m else jdk8_home m)"
    by (simp add: chosen_java_home_def)
  show "py_str (dict_get (env_config m) ''jdk_version'' (PyInt 8)) = ''17'' \<longleftrightarrow>
            env_config m ''jdk_version'' = Some (PyStr ''17'') \<or>
            env_config m ''jdk_version'' = Some (PyInt 17)"
    by (cases "env_config m ''jdk_version''") (simp_all add: dict_get_def py_str_17 del: py_str.simps)
qed

text \<open>The example: the demonstration workspace, built with \<open>jdk_version = 17\<close>.\<close>

lemma demo_one_call_17:
  "length (new_calls demo_world (snd (run_build demo_proc
      (demo_manager [''jdk_version'' \<mapsto> PyInt 17]) demo_world))) = 1"
  by code_simp

theorem java_home_selection_witness:
  "hd (new_calls demo_world (snd (run_build demo_proc (demo_manager [''jdk_version'' \<mapsto> PyInt 17]) demo_world)))
     \<in> set (new_calls demo_world (snd (run_build demo_proc (demo_manager [''jdk_version'' \<mapsto> PyInt 17]) demo_world))) \<and>
   call_env (hd (new_calls demo_world (snd (run_build demo_proc (demo_manager [''jdk_version'' \<mapsto> PyInt 17]) demo_world))))
      ''JAVA_HOME'' = Some ''/data2/donggyu/benchmark/sec_code/tmp/jdks/temurin17''"
proof -
  let ?cs = "new_calls demo_world (snd (run_build demo_proc (demo_manager [''jdk_version'' \<mapsto> PyInt 17]) demo_world))"
  have "?cs \<noteq> []" using demo_one_call_17 by auto
  then have h: "hd ?cs \<in> set ?cs" by simp
  have v: "(if py_str (dict_get (env_config (demo_manager [''jdk_version'' \<mapsto> PyInt 17])) ''jdk_version'' (PyInt 8)) = ''17''
                 then jdk17_home (demo_manager [''jdk_version'' \<mapsto> PyInt 17]) else jdk8_home (demo_manager [''jdk_version'' \<mapsto> PyInt 17]))
        = ''/data2/donggyu/benchmark/sec_code/tmp/jdks/temurin17''"
    by code_simp
  from java_home_selection[OF h] v h show ?thesis by simp
qed

lemma py_eq_str_iff: "py_eq_str v s \<longleftrightarrow> v = PyStr s"
  by (cases v) auto

lemma new_manager_fields [simp]:
  "workspace_path (new_manager f wp cfg rel) = wp"
  "env_config (new_manager f wp cfg rel) = cfg"
  "build_relative_path (new_manager f wp cfg rel) = rel"
  "module_file (new_manager f wp cfg rel) = f"
  "jdk8_home (new_manager f wp cfg rel) = ''/data2/donggyu/benchmark/sec_code/tmp/jdks/temurin8''"
  "jdk17_home (new_manager f wp cfg rel) = ''/data2/donggyu/benchmark/sec_code/tmp/jdks/temurin17''"
  "maven_home (new_manager f wp cfg rel) = ''/data2/donggyu/benchmark/sec_code/tmp/maven''"
  "gradle_home (new_manager f wp cfg rel) = ''/data2/donggyu/benchmark/sec_code/tmp/gradle''"
  by (simp_all add: new_manager_def Let_def os_path_join_def join2_def)

text \<open>
  Claim C3. When the configuration names a backend that is neither \<open>maven\<close> nor
  \<open>gradle\<close>, the run step returns exit code \<open>-1\<close> with the message
  \<open>Unknown build tool: \<close> followed by the value, and the state it leaves is the state
  it was given with one more log line: the file system is unchanged, no child process was
  started, and no command line was logged.
\<close>

theorem unknown_backend:
  assumes "env_config m ''build_tool'' = Some v" and "v \<noteq> PyStr ''maven''" and "v \<noteq> PyStr ''gradle''"
  shows "run_build proc m w =
           (Inr (- 1, ''Unknown build tool: '' @ py_str v), logger Info ''Running build locally...'' w) \<and>
         fs_root (snd (run_build proc m w)) = fs_root w \<and>
         proc_calls (snd (run_build proc m w)) = proc_calls w \<and>
         environ (snd (run_build proc m w)) = environ w \<and>
         logged (snd (run_build proc m w)) = logged w @ [(Info, ''Running build locally...'')]"
proof -
  from assms have v: "dict_get (env_config m) ''build_tool'' (PyStr ''maven'') = v"
    by (simp add: dict_get_def)
  from assms have "\<not> py_eq_str v ''gradle''" "\<not> py_eq_str v ''maven''"
    by (simp_all add: py_eq_str_iff)
  with v have "run_build proc m w =
      (Inr (- 1, ''Unknown build tool: '' @ py_str v), logger Info ''Running build locally...'' w)"
    using run_build_unknown[of m proc w] by simp
  then show ?thesis by simp
qed

theorem unknown_backend_witness:
  "[''build_tool'' \<mapsto> PyStr ''ant''] ''build_tool'' = Some (PyStr ''ant'') \<and>
   PyStr ''ant'' \<noteq> PyStr ''maven'' \<and> PyStr ''ant'' \<noteq> PyStr ''gradle'' \<and>
   fst (run_build demo_proc (demo_manager [''build_tool'' \<mapsto> PyStr ''ant'']) demo_world) =
     Inr (- 1, ''Unknown build tool: ant'') \<and>
   fs_root (snd (run_build demo_proc (demo_manager [''build_tool'' \<mapsto> PyStr ''ant'']) demo_world)) = demo_fs \<and>
   proc_calls (snd (run_build demo_proc (demo_manager [''build_tool'' \<mapsto> PyStr ''ant'']) demo_world)) = []"
proof -
  have a: "env_config (demo_manager [''build_tool'' \<mapsto> PyStr ''ant'']) ''build_tool'' = Some (PyStr ''ant'')"
    by (simp add: demo_manager_def)
  have b: "PyStr ''ant'' \<noteq> PyStr ''maven''" "PyStr ''ant'' \<noteq> PyStr ''gradle''" by simp_all
  from unknown_backend[OF a b, of demo_proc demo_world] show ?thesis
    by (simp add: demo_world_def)
qed

text \<open>
  Claim C6, as the code has it. Whenever the run step reaches \<open>subprocess.run\<close>, its
  result is a value and not an exception. When \<open>subprocess.run\<close> returns, it is the
  child's return code as it is and the log made of standard output, a newline and standard
  error. When \<open>subprocess.run\<close> raises, it is exit code \<open>-1\<close> and the text of the
  exception, and this both for a child that could not be started and for a child that ran
  to its end, whatever its return code, with an output that could not be decoded. An
  exception leaves the run step only when no child was started.
\<close>

theorem run_returns_build_result:
  "(\<forall>c \<in> set (new_calls w (snd (run_build proc m w))).
      (\<exists>fs0. call_outcome c = fst (proc (call_cmd c) (call_cwd c) (call_env c) fs0)) \<and>
      fst (run_build proc m w) =
        (case call_outcome c of
           Completed rc out err \<Rightarrow> Inr (rc, out @ [CHR 0x0A] @ err)
         | Not_started msg \<Rightarrow> Inr (- 1, msg)
         | Undecodable rc msg \<Rightarrow> Inr (- 1, msg))) \<and>
   (\<forall>e. fst (run_build proc m w) = Inl e \<longrightarrow> new_calls w (snd (run_build proc m w)) = [])"
proof -
  have a: "(\<exists>fs0. call_outcome c = fst (proc (call_cmd c) (call_cwd c) (call_env c) fs0)) \<and>
      fst (run_build proc m w) =
        (case call_outcome c of
           Completed rc out err \<Rightarrow> Inr (rc, out @ [CHR 0x0A] @ err)
         | Not_started msg \<Rightarrow> Inr (- 1, msg)
         | Undecodable rc msg \<Rightarrow> Inr (- 1, msg))"
    if c: "c \<in> set (new_calls w (snd (run_build proc m w)))" for c
    using one_call_fields(6,7)[OF run_build_one_call[OF c] c]
    by (simp add: result_of_def)
  have b: "new_calls w (snd (run_build proc m w)) = []" if e: "fst (run_build proc m w) = Inl e" for e
  proof (rule ccontr)
    assume "new_calls w (snd (run_build proc m w)) \<noteq> []"
    then obtain c where c: "c \<in> set (new_calls w (snd (run_build proc m w)))"
      by (cases "new_calls w (snd (run_build proc m w))") auto
    from a[OF c] e show False by (auto split: proc_outcome.splits)
  qed
  from a b show ?thesis by blast
qed

lemma failing_one_call:
  "length (new_calls demo_world (snd (run_build failing_proc (demo_manager Map.empty) demo_world))) = 1"
  by code_simp

lemma failing_outcome:
  "call_outcome (hd (new_calls demo_world (snd (run_build failing_proc (demo_manager Map.empty) demo_world))))
     = Completed 1 ''BUILD FAILURE'' ''error: missing symbol''"
  by code_simp

lemma broken_one_call:
  "length (new_calls demo_world (snd (run_build broken_proc (demo_manager Map.empty) demo_world))) = 1"
  by code_simp

lemma broken_outcome:
  "call_outcome (hd (new_calls demo_world (snd (run_build broken_proc (demo_manager Map.empty) demo_world))))
     = Not_started ''[Errno 8] Exec format error''"
  by code_simp

theorem run_returns_build_result_witness:
  "hd (new_calls demo_world (snd (run_build failing_proc (demo_manager Map.empty) demo_world)))
     \<in> set (new_calls demo_world (snd (run_build failing_proc (demo_manager Map.empty) demo_world))) \<and>
   fst (run_build failing_proc (demo_manager Map.empty) demo_world) =
     Inr (1, ''BUILD FAILURE'' @ [CHR 0x0A] @ ''error: missing symbol'') \<and>
   hd (new_calls demo_world (snd (run_build broken_proc (demo_manager Map.empty) demo_world)))
     \<in> set (new_calls demo_world (snd (run_build broken_proc (demo_manager Map.empty) demo_world))) \<and>
   fst (run_build broken_proc (demo_manager Map.empty) demo_world) =
     Inr (- 1, ''[Errno 8] Exec format error'')"
proof -
  let ?f = "new_calls demo_world (snd (run_build failing_proc (demo_manager Map.empty) demo_world))"
  let ?b = "new_calls demo_world (snd (run_build broken_proc (demo_manager Map.empty) demo_world))"
  have "?f \<noteq> []" using failing_one_call by auto
  then have hf: "hd ?f \<in> set ?f" by simp
  have "?b \<noteq> []" using broken_one_call by auto
  then have hb: "hd ?b \<in> set ?b" by simp
  note tf = run_returns_build_result[of demo_world failing_proc "demo_manager Map.empty"]
  note tb = run_returns_build_result[of demo_world broken_proc "demo_manager Map.empty"]
  from bspec[OF conjunct1[OF tf] hf]
  have f: "fst (run_build failing_proc (demo_manager Map.empty) demo_world) =
     Inr (1, ''BUILD FAILURE'' @ [CHR 0x0A] @ ''error: missing symbol'')"
    unfolding failing_outcome by simp
  from bspec[OF conjunct1[OF tb] hb]
  have b: "fst (run_build broken_proc (demo_manager Map.empty) demo_world) =
     Inr (- 1, ''[Errno 8] Exec format error'')"
    unfolding broken_outcome by simp
  from hf f hb b show ?thesis by blast
qed

text \<open>
  The claim as it is written gives the child's own exit code for every child that was
  started. Here the child is started, as the record of the call shows, and ends with
  return code 0; a byte of its output is not UTF-8, \<open>subprocess.run\<close> raises while it
  decodes, and the run step returns exit code \<open>-1\<close> with the text of the exception.
\<close>

theorem undecodable_output_counterexample:
  "map call_outcome (new_calls demo_world (snd (run_build garbled_proc (demo_manager Map.empty) demo_world))) =
     [Undecodable 0 ([CHR 0x27] @ ''utf-8'' @ [CHR 0x27] @ '' codec can'' @ [CHR 0x27] @
        ''t decode byte 0xff in position 0: invalid start byte'')] \<and>
   fst (run_build garbled_proc (demo_manager Map.empty) demo_world) =
     Inr (- 1, [CHR 0x27] @ ''utf-8'' @ [CHR 0x27] @ '' codec can'' @ [CHR 0x27] @
        ''t decode byte 0xff in position 0: invalid start byte'')"
  by code_simp

lemma run_build_cong:
  assumes "dict_get (env_config m') ''build_tool'' (PyStr ''maven'') = dict_get (env_config m) ''build_tool'' (PyStr ''maven'')"
    and "dict_get (env_config m') ''jdk_version'' (PyInt 8) = dict_get (env_config m) ''jdk_version'' (PyInt 8)"
    and "local_manager.truncate (m'\<lparr>env_config := env_config m\<rparr>) = local_manager.truncate m"
  shows "run_build proc m' w = run_build proc m w"
proof -
  from assms(3) have "workspace_path m' = workspace_path m" "build_relative_path m' = build_relative_path m"
    "jdk8_home m' = jdk8_home m" "jdk17_home m' = jdk17_home m" "maven_home m' = maven_home m"
    "gradle_home m' = gradle_home m" "module_file m' = module_file m"
    by (simp_all add: local_manager.truncate_def)
  with assms(1,2) show ?thesis
    unfolding run_build_def Let_def by (simp cong: if_cong option.case_cong prod.case_cong)
qed

text \<open>
  Claim C8. The environment given to a child of the run step is the environment of the
  process with two entries set: \<open>JAVA_HOME\<close>, the selected JDK home, and \<open>PATH\<close>, made of
  \<open>JAVA_HOME/bin\<close>, the directory of the resolved binary and the inherited value, in this
  order and separated by colons. Every other variable is as it was inherited, and the
  environment of the process itself is the same after the run step as before.
\<close>

theorem child_environment:
  assumes "c \<in> set (new_calls w (snd (run_build proc m w)))"
  shows "call_env c ''JAVA_HOME'' = Some (chosen_java_home m) \<and>
         configured_binary m (fs_root w) = Some (hd (call_cmd c)) \<and>
         call_env c ''PATH'' =
           Some (os_path_join (chosen_java_home m) [''bin''] @ '':'' @ dirname (hd (call_cmd c)) @
                 '':'' @ (case environ w ''PATH'' of None \<Rightarrow> [] | Some p \<Rightarrow> p)) \<and>
         (\<forall>k. k \<noteq> ''JAVA_HOME'' \<and> k \<noteq> ''PATH'' \<longrightarrow> call_env c k = environ w k) \<and>
         environ (snd (run_build proc m w)) = environ w"
proof -
  note f = one_call_fields[OF run_build_one_call[OF assms] assms]
  have e: "call_env c = (environ w)(''JAVA_HOME'' \<mapsto> chosen_java_home m,
            ''PATH'' \<mapsto> path_value ((environ w)(''JAVA_HOME'' \<mapsto> chosen_java_home m))
                [os_path_join (chosen_java_home m) [''bin''], dirname (hd (call_cmd c))])"
    by (rule f(5))
  have a: "call_env c ''JAVA_HOME'' = Some (chosen_java_home m)"
    by (subst e) simp
  have b: "call_env c ''PATH'' =
           Some (os_path_join (chosen_java_home m) [''bin''] @ '':'' @ dirname (hd (call_cmd c)) @
                 '':'' @ (case environ w ''PATH'' of None \<Rightarrow> [] | Some p \<Rightarrow> p))"
    by (subst e) (simp add: path_value_def dict_get_def)
  have d: "\<forall>k. k \<noteq> ''JAVA_HOME'' \<and> k \<noteq> ''PATH'' \<longrightarrow> call_env c k = environ w k"
    by (subst e) simp
  show ?thesis
    by (rule conjI[OF a conjI[OF f(3) conjI[OF b conjI[OF d run_build_environ]]]])
qed

lemma demo_one_call:
  "length (new_calls demo_world (snd (run_build demo_proc (demo_manager Map.empty) demo_world))) = 1"
  by code_simp

lemma demo_call_cmd:
  "call_cmd (hd (new_calls demo_world (snd (run_build demo_proc (demo_manager Map.empty) demo_world)))) =
     [''/data2/donggyu/benchmark/sec_code/tmp/maven/bin/mvn'', ''package'', ''-DskipTests'', ''-T'',
      ''1C'', ''-pl'', ''!distribution'', ''-Dskip.npm=true'', ''-Dskip.node=true'',
      ''-Dskip.installnodenpm=true'', ''-s'', ''/ws/settings.xml'']"
  by code_simp

lemma demo_java_home:
  "chosen_java_home (demo_manager Map.empty) = ''/data2/donggyu/benchmark/sec_code/tmp/jdks/temurin8''"
  by code_simp

lemma demo_path:
  "os_path_join ''/data2/donggyu/benchmark/sec_code/tmp/jdks/temurin8'' [''bin''] @ '':'' @
     dirname ''/data2/donggyu/benchmark/sec_code/tmp/maven/bin/mvn'' @ '':'' @
     (case environ demo_world ''PATH'' of None \<Rightarrow> [] | Some p \<Rightarrow> p) =
   ''/data2/donggyu/benchmark/sec_code/tmp/jdks/temurin8/bin:/data2/donggyu/benchmark/sec_code/tmp/maven/bin:/usr/bin''"
  by code_simp

theorem child_environment_witness:
  "hd (new_calls demo_world (snd (run_build demo_proc (demo_manager Map.empty) demo_world)))
     \<in> set (new_calls demo_world (snd (run_build demo_proc (demo_manager Map.empty) demo_world))) \<and>
   call_env (hd (new_calls demo_world (snd (run_build demo_proc (demo_manager Map.empty) demo_world))))
     ''JAVA_HOME'' = Some ''/data2/donggyu/benchmark/sec_code/tmp/jdks/temurin8'' \<and>
   call_env (hd (new_calls demo_world (snd (run_build demo_proc (demo_manager Map.empty) demo_world))))
     ''PATH'' = Some ''/data2/donggyu/benchmark/sec_code/tmp/jdks/temurin8/bin:/data2/donggyu/benchmark/sec_code/tmp/maven/bin:/usr/bin'' \<and>
   ''HOME'' \<noteq> ''JAVA_HOME'' \<and> ''HOME'' \<noteq> ''PATH'' \<and>
   call_env (hd (new_calls demo_world (snd (run_build demo_proc (demo_manager Map.empty) demo_world))))
     ''HOME'' = Some ''/root'' \<and>
   environ (snd (run_build demo_proc (demo_manager Map.empty) demo_world)) = environ demo_world"
proof -
  let ?cs = "new_calls demo_world (snd (run_build demo_proc (demo_manager Map.empty) demo_world))"
  have "?cs \<noteq> []" using demo_one_call by auto
  then have h: "hd ?cs \<in> set ?cs" by (rule hd_in_set)
  note t = child_environment[OF h]
  have a: "call_env (hd ?cs) ''JAVA_HOME'' = Some ''/data2/donggyu/benchmark/sec_code/tmp/jdks/temurin8''"
    using conjunct1[OF t] unfolding demo_java_home .
  have b: "call_env (hd ?cs) ''PATH'' = Some ''/data2/donggyu/benchmark/sec_code/tmp/jdks/temurin8/bin:/data2/donggyu/benchmark/sec_code/tmp/maven/bin:/usr/bin''"
    using conjunct1[OF conjunct2[OF conjunct2[OF t]]] unfolding demo_java_home demo_call_cmd list.sel demo_path .
  have n: "''HOME'' \<noteq> ''JAVA_HOME''" "''HOME'' \<noteq> ''PATH''" by simp_all
  have e: "environ demo_world ''HOME'' = Some ''/root''" by (simp add: demo_world_def)
  have d: "call_env (hd ?cs) ''HOME'' = Some ''/root''"
    using conjunct1[OF conjunct2[OF conjunct2[OF conjunct2[OF t]]]] n e by metis
  have f: "environ (snd (run_build demo_proc (demo_manager Map.empty) demo_world)) = environ demo_world"
    by (rule conjunct2[OF conjunct2[OF conjunct2[OF conjunct2[OF t]]]])
  show ?thesis
    by (rule conjI[OF h conjI[OF a conjI[OF b conjI[OF n(1) conjI[OF n(2) conjI[OF d f]]]]]])
qed

lemma chmod_exc_not_unknown: "os_chmod fs p = Some e \<Longrightarrow> str_exc e \<noteq> CHR ''U'' # s"
  by (auto simp: os_chmod_def os_error_def split: sum.splits errno.splits)

text \<open>The call a Maven run makes.\<close>

lemma maven_call:
  assumes g: "\<not> py_eq_str (dict_get (env_config m) ''build_tool'' (PyStr ''maven'')) ''gradle''"
    and mv: "py_eq_str (dict_get (env_config m) ''build_tool'' (PyStr ''maven'')) ''maven''"
  shows "(\<forall>c \<in> set (new_calls w (snd (run_build proc m w))).
           \<exists>bin. resolve_tool (fs_root w) (maven_home m) ''mvn'' = Some bin \<and>
             call_cmd c = maven_command_line bin
               (os_path_exists (fs_root w)
                  (os_path_join (os_path_join (workspace_path m) [build_relative_path m]) [''distribution'']))
               (if os_path_exists (fs_root w) (os_path_join (workspace_path m) [''settings.xml''])
                then Some (os_path_join (workspace_path m) [''settings.xml'']) else None)) \<and>
         (new_calls w (snd (run_build proc m w)) = [] \<longrightarrow>
            (\<forall>s. fst (run_build proc m w) \<noteq> Inr (- 1, ''Unknown build tool: '' @ s)))"
proof (cases "resolve_tool (fs_root w) (maven_home m) ''mvn''")
  case None
  then have "run_build proc m w = (Inr (- 1, ''Maven binary not found in '' @ maven_home m),
                 logger Info ''Running build locally...'' w)"
    by (simp add: run_build_maven[OF g mv])
  then show ?thesis by (simp add: new_calls_def)
next
  case (Some bin)
  let ?cmd = "maven_command_line bin
               (os_path_exists (fs_root w)
                  (os_path_join (os_path_join (workspace_path m) [build_relative_path m]) [''distribution'']))
               (if os_path_exists (fs_root w) (os_path_join (workspace_path m) [''settings.xml''])
                then Some (os_path_join (workspace_path m) [''settings.xml'']) else None)"
  obtain r w' where rw: "run_build proc m w = (r, w')" by (cases "run_build proc m w")
  with Some have l: "launch proc ?cmd
            (os_path_join (workspace_path m) [build_relative_path m])
            ((environ w)(''JAVA_HOME'' \<mapsto> chosen_java_home m))
            [os_path_join (chosen_java_home m) [''bin''], dirname bin] bin (chosen_java_home m)
            (logger Info ''Running build locally...'' w) = (r, w')"
    by (simp add: run_build_maven[OF g mv])
  from launch_cases[OF l] show ?thesis
  proof (elim conjE disjE exE)
    fix e assume "r = Inr (- 1, str_exc e)"
      "os_chmod (fs_root (logger Info ''Running build locally...'' w)) bin = Some e"
      "proc_calls w' = proc_calls (logger Info ''Running build locally...'' w)"
    then show ?thesis using rw chmod_exc_not_unknown[of "fs_root w" bin e]
      by (simp add: new_calls_def)
  next
    assume "proc_calls w' =
      proc_calls (logger Info ''Running build locally...'' w) @
      [(?cmd, os_path_join (workspace_path m) [build_relative_path m],
        (environ w)(''JAVA_HOME'' \<mapsto> chosen_java_home m,
           ''PATH'' \<mapsto> path_value ((environ w)(''JAVA_HOME'' \<mapsto> chosen_java_home m))
             [os_path_join (chosen_java_home m) [''bin''], dirname bin]),
        fst (proc ?cmd (os_path_join (workspace_path m) [build_relative_path m])
              ((environ w)(''JAVA_HOME'' \<mapsto> chosen_java_home m,
                 ''PATH'' \<mapsto> path_value ((environ w)(''JAVA_HOME'' \<mapsto> chosen_java_home m))
                   [os_path_join (chosen_java_home m) [''bin''], dirname bin]))
              (fs_root (logger Info ''Running build locally...'' w))))]"
    then show ?thesis using rw Some by (simp add: new_calls_def call_cmd_def)
  qed
qed

text \<open>
  Claim C10. A configuration without \<open>build_tool\<close> is run as one that says \<open>maven\<close>,
  and a configuration without \<open>jdk_version\<close> as one that says \<open>8\<close>, every child
  then getting the JDK 8 home as \<open>JAVA_HOME\<close>. Without \<open>build_tool\<close>, a run that starts
  no child never returns the message of an unknown backend.
\<close>

theorem missing_configuration_defaults:
  "(env_config m ''build_tool'' = None \<longrightarrow>
      run_build proc m w =
        run_build proc (m\<lparr>env_config := (env_config m)(''build_tool'' \<mapsto> PyStr ''maven'')\<rparr>) w \<and>
      (new_calls w (snd (run_build proc m w)) = [] \<longrightarrow>
         (\<forall>s. fst (run_build proc m w) \<noteq> Inr (- 1, ''Unknown build tool: '' @ s)))) \<and>
   (env_config m ''jdk_version'' = None \<longrightarrow>
      run_build proc m w =
        run_build proc (m\<lparr>env_config := (env_config m)(''jdk_version'' \<mapsto> PyInt 8)\<rparr>) w \<and>
      (\<forall>c \<in> set (new_calls w (snd (run_build proc m w))).
         call_env c ''JAVA_HOME'' = Some (jdk8_home m)))"
proof (rule conjI; rule impI; rule conjI)
  assume n: "env_config m ''build_tool'' = None"
  show "run_build proc m w =
        run_build proc (m\<lparr>env_config := (env_config m)(''build_tool'' \<mapsto> PyStr ''maven'')\<rparr>) w"
    by (rule run_build_cong[symmetric]) (simp_all add: dict_get_def n)
next
  assume n: "env_config m ''build_tool'' = None"
  from n have "\<not> py_eq_str (dict_get (env_config m) ''build_tool'' (PyStr ''maven'')) ''gradle''"
    "py_eq_str (dict_get (env_config m) ''build_tool'' (PyStr ''maven'')) ''maven''"
    by (simp_all add: dict_get_def)
  from maven_call[OF this]
  show "new_calls w (snd (run_build proc m w)) = [] \<longrightarrow>
         (\<forall>s. fst (run_build proc m w) \<noteq> Inr (- 1, ''Unknown build tool: '' @ s))"
    by (rule conjunct2)
next
  assume n: "env_config m ''jdk_version'' = None"
  show "run_build proc m w =
        run_build proc (m\<lparr>env_config := (env_config m)(''jdk_version'' \<mapsto> PyInt 8)\<rparr>) w"
    by (rule run_build_cong[symmetric]) (simp_all add: dict_get_def n)
next
  assume n: "env_config m ''jdk_version'' = None"
  have "py_str (PyInt 8) \<noteq> ''17''" unfolding py_str_17 by simp
  with n have j: "chosen_java_home m = jdk8_home m"
    by (simp add: chosen_java_home_def dict_get_def del: py_str.simps)
  show "\<forall>c \<in> set (new_calls w (snd (run_build proc m w))).
         call_env c ''JAVA_HOME'' = Some (jdk8_home m)"
  proof
    fix c assume c: "c \<in> set (new_calls w (snd (run_build proc m w)))"
    have e: "call_env c = (environ w)(''JAVA_HOME'' \<mapsto> chosen_java_home m,
            ''PATH'' \<mapsto> path_value ((environ w)(''JAVA_HOME'' \<mapsto> chosen_java_home m))
                [os_path_join (chosen_java_home m) [''bin''], dirname (hd (call_cmd c))])"
      by (rule one_call_fields(5)[OF run_build_one_call[OF c] c])
    show "call_env c ''JAVA_HOME'' = Some (jdk8_home m)"
      by (subst e) (simp add: j)
  qed
qed

lemma bare_no_call:
  "length (new_calls bare_world (snd (run_build demo_proc (demo_manager Map.empty) bare_world))) = 0"
  by code_simp

theorem missing_configuration_defaults_witness:
  "env_config (demo_manager Map.empty) ''build_tool'' = None \<and>
   env_config (demo_manager Map.empty) ''jdk_version'' = None \<and>
   run_build demo_proc (demo_manager Map.empty) demo_world =
     run_build demo_proc ((demo_manager Map.empty)\<lparr>env_config := [''build_tool'' \<mapsto> PyStr ''maven'']\<rparr>) demo_world \<and>
   run_build demo_proc (demo_manager Map.empty) demo_world =
     run_build demo_proc ((demo_manager Map.empty)\<lparr>env_config := [''jdk_version'' \<mapsto> PyInt 8]\<rparr>) demo_world \<and>
   hd (new_calls demo_world (snd (run_build demo_proc (demo_manager Map.empty) demo_world)))
     \<in> set (new_calls demo_world (snd (run_build demo_proc (demo_manager Map.empty) demo_world))) \<and>
   call_env (hd (new_calls demo_world (snd (run_build demo_proc (demo_manager Map.empty) demo_world))))
     ''JAVA_HOME'' = Some ''/data2/donggyu/benchmark/sec_code/tmp/jdks/temurin8'' \<and>
   new_calls bare_world (snd (run_build demo_proc (demo_manager Map.empty) bare_world)) = [] \<and>
   fst (run_build demo_proc (demo_manager Map.empty) bare_world) \<noteq> Inr (- 1, ''Unknown build tool: '' @ ''maven'')"
proof -
  let ?m = "demo_manager Map.empty"
  let ?cs = "new_calls demo_world (snd (run_build demo_proc ?m demo_world))"
  have a: "env_config ?m ''build_tool'' = None" and b: "env_config ?m ''jdk_version'' = None"
    by (simp_all add: demo_manager_def)
  have cfg: "env_config ?m = Map.empty" by (simp add: demo_manager_def)
  have "?cs \<noteq> []" using demo_one_call by auto
  then have h: "hd ?cs \<in> set ?cs" by (rule hd_in_set)
  have nb: "new_calls bare_world (snd (run_build demo_proc ?m bare_world)) = []"
    using bare_no_call by simp
  have j: "jdk8_home ?m = ''/data2/donggyu/benchmark/sec_code/tmp/jdks/temurin8''"
    by (simp add: demo_manager_def)
  note t = missing_configuration_defaults[of ?m demo_proc demo_world]
  note u = missing_configuration_defaults[of ?m demo_proc bare_world]
  from t a cfg have e1: "run_build demo_proc ?m demo_world =
     run_build demo_proc (?m\<lparr>env_config := [''build_tool'' \<mapsto> PyStr ''maven'']\<rparr>) demo_world"
    by metis
  from t b cfg have e2: "run_build demo_proc ?m demo_world =
     run_build demo_proc (?m\<lparr>env_config := [''jdk_version'' \<mapsto> PyInt 8]\<rparr>) demo_world"
    by metis
  from t b h j have e3: "call_env (hd ?cs) ''JAVA_HOME'' = Some ''/data2/donggyu/benchmark/sec_code/tmp/jdks/temurin8''"
    by metis
  from u a nb have e4: "fst (run_build demo_proc ?m bare_world) \<noteq> Inr (- 1, ''Unknown build tool: '' @ ''maven'')"
    by metis
  show ?thesis
    by (rule conjI[OF a conjI[OF b conjI[OF e1 conjI[OF e2 conjI[OF h conjI[OF e3 conjI[OF nb e4]]]]]]])
qed

text \<open>
  Claim C4, as the code has it. The command line of a Maven run is the resolved binary,
  \<open>package -DskipTests -T 1C\<close>, then \<open>-pl !distribution\<close> exactly when something named
  \<open>distribution\<close>, a directory or a regular file, is found in the build subdirectory in
  the state the run step is given, then the three flags that switch npm and node off,
  then \<open>-s\<close> and the path of \<open>settings.xml\<close> in the workspace root exactly when something
  of that name, a regular file or a directory, is found there.
\<close>

theorem maven_command_line_built:
  assumes "dict_get (env_config m) ''build_tool'' (PyStr ''maven'') = PyStr ''maven''"
    and "c \<in> set (new_calls w (snd (run_build proc m w)))"
  shows "resolve_tool (fs_root w) (maven_home m) ''mvn'' = Some (hd (call_cmd c)) \<and>
         call_cmd c =
           [hd (call_cmd c), ''package'', ''-DskipTests'', ''-T'', ''1C''] @
           (if os_path_exists (fs_root w)
                 (os_path_join (os_path_join (workspace_path m) [build_relative_path m]) [''distribution''])
            then [''-pl'', ''!distribution''] else []) @
           [''-Dskip.npm=true'', ''-Dskip.node=true'', ''-Dskip.installnodenpm=true''] @
           (if os_path_exists (fs_root w) (os_path_join (workspace_path m) [''settings.xml''])
            then [''-s'', os_path_join (workspace_path m) [''settings.xml'']] else []) \<and>
         (take 2 (drop 5 (call_cmd c)) = [''-pl'', ''!distribution''] \<longleftrightarrow>
            os_path_exists (fs_root w)
              (os_path_join (os_path_join (workspace_path m) [build_relative_path m]) [''distribution''])) \<and>
         (drop (length (call_cmd c) - 2) (call_cmd c) =
            [''-s'', os_path_join (workspace_path m) [''settings.xml'']] \<longleftrightarrow>
            os_path_exists (fs_root w) (os_path_join (workspace_path m) [''settings.xml'']))"
proof -
  from assms(1) have "\<not> py_eq_str (dict_get (env_config m) ''build_tool'' (PyStr ''maven'')) ''gradle''"
    "py_eq_str (dict_get (env_config m) ''build_tool'' (PyStr ''maven'')) ''maven''"
    by simp_all
  from conjunct1[OF maven_call[OF this, of w proc]] assms(2)
  obtain bin where b: "resolve_tool (fs_root w) (maven_home m) ''mvn'' = Some bin"
    and c: "call_cmd c = maven_command_line bin
               (os_path_exists (fs_root w)
                  (os_path_join (os_path_join (workspace_path m) [build_relative_path m]) [''distribution'']))
               (if os_path_exists (fs_root w) (os_path_join (workspace_path m) [''settings.xml''])
                then Some (os_path_join (workspace_path m) [''settings.xml'']) else None)"
    by blast
  show ?thesis
    unfolding c b by (simp add: maven_command_line_def)
qed

lemma odd_one_call:
  "length (new_calls odd_world (snd (run_build demo_proc (demo_manager Map.empty) odd_world))) = 1"
  by code_simp

theorem maven_command_line_built_witness:
  "dict_get (env_config (demo_manager Map.empty)) ''build_tool'' (PyStr ''maven'') = PyStr ''maven'' \<and>
   hd (new_calls demo_world (snd (run_build demo_proc (demo_manager Map.empty) demo_world)))
     \<in> set (new_calls demo_world (snd (run_build demo_proc (demo_manager Map.empty) demo_world))) \<and>
   resolve_tool (fs_root demo_world) (maven_home (demo_manager Map.empty)) ''mvn'' =
     Some ''/data2/donggyu/benchmark/sec_code/tmp/maven/bin/mvn'' \<and>
   os_path_exists (fs_root demo_world)
     (os_path_join (os_path_join (workspace_path (demo_manager Map.empty))
        [build_relative_path (demo_manager Map.empty)]) [''distribution'']) \<and>
   os_path_exists (fs_root demo_world)
     (os_path_join (workspace_path (demo_manager Map.empty)) [''settings.xml''])"
proof -
  let ?m = "demo_manager Map.empty"
  let ?cs = "new_calls demo_world (snd (run_build demo_proc ?m demo_world))"
  have a: "dict_get (env_config ?m) ''build_tool'' (PyStr ''maven'') = PyStr ''maven''"
    by (simp add: demo_manager_def dict_get_def)
  have "?cs \<noteq> []" using demo_one_call by auto
  then have h: "hd ?cs \<in> set ?cs" by (rule hd_in_set)
  note t = maven_command_line_built[OF a h]
  have r: "resolve_tool (fs_root demo_world) (maven_home ?m) ''mvn'' =
     Some ''/data2/donggyu/benchmark/sec_code/tmp/maven/bin/mvn''"
    using conjunct1[OF t] unfolding demo_call_cmd list.sel .
  have t5: "take 2 (drop 5 (call_cmd (hd ?cs))) = [''-pl'', ''!distribution'']"
    unfolding demo_call_cmd by simp
  have d: "os_path_exists (fs_root demo_world)
     (os_path_join (os_path_join (workspace_path ?m) [build_relative_path ?m]) [''distribution''])"
    using conjunct1[OF conjunct2[OF conjunct2[OF t]]] t5 by (rule iffD1)
  have s: "os_path_join (workspace_path ?m) [''settings.xml''] = ''/ws/settings.xml''"
    by (simp add: demo_manager_def os_path_join_def join2_def)
  have t2: "drop (length (call_cmd (hd ?cs)) - 2) (call_cmd (hd ?cs)) =
     [''-s'', os_path_join (workspace_path ?m) [''settings.xml'']]"
    unfolding demo_call_cmd s by simp
  have e: "os_path_exists (fs_root demo_world) (os_path_join (workspace_path ?m) [''settings.xml''])"
    using conjunct2[OF conjunct2[OF conjunct2[OF t]]] t2 by (rule iffD1)
  show ?thesis
    by (rule conjI[OF a conjI[OF h conjI[OF r conjI[OF d e]]]])
qed

text \<open>
  The claim as it is written asks for a \<open>distribution\<close> directory. In this workspace
  \<open>distribution\<close> is a regular file and \<open>settings.xml\<close> is a directory, and the command
  line has both \<open>-pl !distribution\<close> and \<open>-s /ws/settings.xml\<close>.
\<close>

theorem maven_exclusion_counterexample:
  "\<not> os_path_isdir (fs_root odd_world)
       (os_path_join (os_path_join (workspace_path (demo_manager Map.empty))
          [build_relative_path (demo_manager Map.empty)]) [''distribution'']) \<and>
   os_path_isdir (fs_root odd_world) (os_path_join (workspace_path (demo_manager Map.empty)) [''settings.xml'']) \<and>
   map call_cmd (new_calls odd_world (snd (run_build demo_proc (demo_manager Map.empty) odd_world))) =
     [[''/data2/donggyu/benchmark/sec_code/tmp/maven/bin/mvn'', ''package'', ''-DskipTests'', ''-T'',
       ''1C'', ''-pl'', ''!distribution'', ''-Dskip.npm=true'', ''-Dskip.node=true'',
       ''-Dskip.installnodenpm=true'', ''-s'', ''/ws/settings.xml'']]"
  by code_simp
section \<open>Path text and places\<close>

lemma split_sep_not_Nil [simp]: "split_sep p \<noteq> []"
  by (induction p) (auto split: list.splits)

lemma split_sep_slash: "split_sep (a @ CHR ''/'' # b) = split_sep a @ split_sep b"
  by (induction a) (auto split: list.splits)

lemma split_sep_name: "CHR ''/'' \<notin> set n \<Longrightarrow> split_sep n = [n]"
  by (induction n) auto

lemma parts_slash: "parts (a @ CHR ''/'' # b) = foldl norm_step (parts a) (split_sep b)"
  by (simp add: parts_def split_sep_slash)

lemma parts_join2:
  assumes "valid_name n"
  shows "parts (join2 p n) = parts p @ [n]"
proof -
  from assms have n: "n \<noteq> []" "CHR ''/'' \<notin> set n" "n \<noteq> ''.''" "n \<noteq> ''..''"
    by (simp_all add: valid_name_def)
  then have hd: "hd n \<noteq> CHR ''/''" by (cases n) auto
  have step: "norm_step acc n = acc @ [n]" for acc using n by (simp add: norm_step_def)
  show ?thesis
  proof (cases "p = []")
    case True
    then show ?thesis using n hd by (simp add: join2_def parts_def split_sep_name step norm_step_def)
  next
    case False
    show ?thesis
    proof (cases "last p = CHR ''/''")
      case True
      with False obtain p' where p: "p = p' @ [CHR ''/'']"
        by (metis append_butlast_last_id)
      have "parts p = parts p'" unfolding p using parts_slash[of p' "[]"] by (simp add: norm_step_def)
      moreover have "parts (p' @ CHR ''/'' # n) = parts p' @ [n]"
        by (simp add: parts_slash split_sep_name n step)
      ultimately show ?thesis using True False hd n by (simp add: join2_def p)
    next
      case l: False
      have "parts (p @ CHR ''/'' # n) = parts p @ [n]"
        by (simp add: parts_slash split_sep_name n step)
      then show ?thesis using l False hd n by (simp add: join2_def)
    qed
  qed
qed


section \<open>Removing and writing in the tree\<close>



lemma lookup_put_at: "put_at p new t = Some t' \<Longrightarrow> lookup t' p = Some new"
proof (induction p arbitrary: t t')
  case Nil
  then show ?case by simp
next
  case (Cons x xs)
  then show ?case
    by (cases t) (auto split: option.splits simp: update_conv' map_add_def)
qed

lemma lookup_put_at_other:
  "put_at p new t = Some t' \<Longrightarrow> \<not> prefix p q \<Longrightarrow> \<not> prefix q p \<Longrightarrow> lookup t' q = lookup t q"
proof (induction p arbitrary: t t' q)
  case Nil
  then show ?case by simp
next
  case (Cons x xs)
  from Cons.prems obtain es where t: "t = Dir es" by (cases t) auto
  from Cons.prems obtain z zs where q: "q = z # zs" by (cases q) auto
  show ?case
  proof (cases "z = x")
    case False
    with Cons.prems t q show ?thesis
      by (auto split: option.splits simp: update_conv' map_add_def)
  next
    case True
    with Cons.prems q have inc: "\<not> prefix xs zs" "\<not> prefix zs xs" by simp_all
    then have zs: "zs \<noteq> []" by auto
    show ?thesis
    proof (cases "map_of es x")
      case None
      with Cons.prems t obtain s where s: "put_at xs new (Dir []) = Some s" "t' = Dir (es @ [(x, s)])"
        by auto
      from Cons.IH[OF s(1) inc] zs have "lookup s zs = None" by (cases zs) simp_all
      with s None t q True show ?thesis by (simp add: map_add_def)
    next
      case (Some s0)
      with Cons.prems t obtain s where s: "put_at xs new s0 = Some s" "t' = Dir (AList.update x s es)"
        by auto
      from Cons.IH[OF s(1) inc] s Some t q True show ?thesis by (simp add: update_conv')
    qed
  qed
qed

section \<open>Walking the tree\<close>

lemma lookup_append:
  "lookup t (p @ q) = (case lookup t p of None \<Rightarrow> None | Some s \<Rightarrow> lookup s q)"
  by (induction p arbitrary: t) (auto split: node.splits option.splits)

lemma wf_entries_member:
  "wf_entries es \<Longrightarrow> (x, s) \<in> set es \<Longrightarrow> valid_name x \<and> wf_node s"
  by (induction es) auto

lemma wf_lookup:
  "wf_node t \<Longrightarrow> lookup t ns = Some s \<Longrightarrow> list_all valid_name ns \<and> wf_node s"
proof (induction ns arbitrary: t)
  case Nil
  then show ?case by simp
next
  case (Cons x xs)
  from Cons.prems obtain es s0 where t: "t = Dir es" "map_of es x = Some s0" "lookup s0 xs = Some s"
    by (cases t) (auto split: option.splits)
  from t(2) have "(x, s0) \<in> set es" by (rule map_of_SomeD)
  with Cons.prems(1) t(1) have "valid_name x" "wf_node s0"
    using wf_entries_member by auto
  with Cons.IH[OF _ t(3)] show ?case by simp
qed

lemma walk_entries_set:
  "set (walk_entries d es) = (\<Union>e \<in> set es. set (walk_node (join2 d (fst e)) (snd e)))"
  by (induction es) auto

lemma walk_complete:
  "lookup t ns = Some (Dir es) \<Longrightarrow>
     (foldl join2 d ns, dir_names es, file_names es) \<in> set (walk_node d t)"
proof (induction ns arbitrary: t d)
  case Nil
  then show ?case by simp
next
  case (Cons x xs)
  from Cons.prems obtain es0 s0 where t: "t = Dir es0" "map_of es0 x = Some s0" "lookup s0 xs = Some (Dir es)"
    by (cases t) (auto split: option.splits)
  from t(2) have m: "(x, s0) \<in> set es0" by (rule map_of_SomeD)
  from Cons.IH[OF t(3), of "join2 d x"]
  have "(foldl join2 (join2 d x) xs, dir_names es, file_names es) \<in> set (walk_node (join2 d x) s0)" .
  with m have "(foldl join2 (join2 d x) xs, dir_names es, file_names es) \<in> set (walk_entries d es0)"
    unfolding walk_entries_set by force
  with t(1) show ?case by simp
qed

lemma walk_sound:
  "wf_node t \<Longrightarrow> trip \<in> set (walk_node d t) \<Longrightarrow>
     \<exists>ns es. lookup t ns = Some (Dir es) \<and> trip = (foldl join2 d ns, dir_names es, file_names es)"
proof (induction t arbitrary: d trip)
  case (File c)
  then show ?case by simp
next
  case (Dir es0)
  show ?case
  proof (cases "trip = (d, dir_names es0, file_names es0)")
    case True
    have "lookup (Dir es0) [] = Some (Dir es0)" by simp
    with True show ?thesis by (metis foldl_Nil)
  next
    case False
    with Dir.prems(2) have "trip \<in> set (walk_entries d es0)" by simp
    then obtain x s where m: "(x, s) \<in> set es0" and tr: "trip \<in> set (walk_node (join2 d x) s)"
      unfolding walk_entries_set by auto
    from Dir.prems(1) m have w: "wf_node s" and dist: "distinct (map fst es0)"
      using wf_entries_member by auto
    from dist m have mo: "map_of es0 x = Some s" by (rule map_of_is_SomeI)
    from m have "s \<in> Basic_BNFs.snds (x, s)" by simp
    from Dir.IH[OF m this w tr] obtain ns es where
      l: "lookup s ns = Some (Dir es)" and e: "trip = (foldl join2 (join2 d x) ns, dir_names es, file_names es)"
      by blast
    from l mo have "lookup (Dir es0) (x # ns) = Some (Dir es)" by simp
    moreover from e have "trip = (foldl join2 d (x # ns), dir_names es, file_names es)" by simp
    ultimately show ?thesis by blast
  qed
qed

lemma file_names_iff:
  assumes "distinct (map fst es)"
  shows "name \<in> set (file_names es) \<longleftrightarrow> (\<exists>c. map_of es name = Some (File c))"
proof
  assume "name \<in> set (file_names es)"
  then obtain s where "(name, s) \<in> set es" "\<not> is_dir s" by (auto simp: file_names_def)
  then obtain c where "(name, File c) \<in> set es" by (cases s) auto
  with assms show "\<exists>c. map_of es name = Some (File c)" by (auto intro: map_of_is_SomeI)
next
  assume "\<exists>c. map_of es name = Some (File c)"
  then obtain c where "map_of es name = Some (File c)" ..
  then have "(name, File c) \<in> set es" by (rule map_of_SomeD)
  then show "name \<in> set (file_names es)" by (force simp: file_names_def)
qed

section \<open>Names at the end of a path text\<close>

lemma parts_foldl_join2:
  "list_all valid_name ns \<Longrightarrow> parts (foldl join2 p ns) = parts p @ ns"
  by (induction ns arbitrary: p) (simp_all add: parts_join2)

lemma join2_ends:
  assumes "valid_name n"
  shows "\<exists>pre. join2 p n = pre @ n \<and> (pre = [] \<or> last pre = CHR ''/'')"
proof -
  from assms have "n \<noteq> []" "CHR ''/'' \<notin> set n" by (simp_all add: valid_name_def)
  then have hd: "hd n \<noteq> CHR ''/''" by (cases n) auto
  show ?thesis
  proof (cases "p = [] \<or> last p = CHR ''/''")
    case True
    then have "join2 p n = p @ n" using hd by (simp add: join2_def)
    with True show ?thesis by blast
  next
    case False
    then have "join2 p n = (p @ ''/'') @ n" using hd by (simp add: join2_def)
    moreover have "last (p @ ''/'') = CHR ''/''" by simp
    ultimately show ?thesis by blast
  qed
qed

lemma takeWhile_upto: "c \<notin> set xs \<Longrightarrow> takeWhile (\<lambda>x. x \<noteq> c) (xs @ c # ys) = xs"
  by (induction xs) auto

lemma takeWhile_whole: "c \<notin> set xs \<Longrightarrow> takeWhile (\<lambda>x. x \<noteq> c) xs = xs"
  by (induction xs) auto

lemma dropWhile_upto: "c \<notin> set xs \<Longrightarrow> dropWhile (\<lambda>x. x \<noteq> c) (xs @ c # ys) = c # ys"
  by (induction xs) auto

lemma basename_ends:
  assumes "CHR ''/'' \<notin> set n" and "pre = [] \<or> last pre = CHR ''/''"
  shows "basename (pre @ n) = n"
proof -
  have a: "takeWhile (\<lambda>c. c \<noteq> CHR ''/'') (rev n @ rev pre) = rev n"
  proof (cases "pre = []")
    case True
    with assms(1) show ?thesis by (simp add: takeWhile_whole)
  next
    case False
    with assms(2) have "hd (rev pre) = CHR ''/''" by (simp add: hd_rev)
    with False obtain r where "rev pre = CHR ''/'' # r" by (cases "rev pre") auto
    with assms(1) show ?thesis by (simp add: takeWhile_upto)
  qed
  show ?thesis by (simp add: basename_def a)
qed

lemma basename_join2: "valid_name n \<Longrightarrow> basename (join2 p n) = n"
proof -
  assume v: "valid_name n"
  from join2_ends[OF v, of p] obtain pre where
    "join2 p n = pre @ n" "pre = [] \<or> last pre = CHR ''/''" by blast
  with v show ?thesis using basename_ends[of n pre] by (simp add: valid_name_def)
qed

lemma join2_clean:
  assumes "valid_name n"
  shows "join2 p n \<noteq> [] \<and> last (join2 p n) \<noteq> CHR ''/''"
proof -
  from assms have n: "n \<noteq> []" "CHR ''/'' \<notin> set n" by (simp_all add: valid_name_def)
  from join2_ends[OF assms, of p] obtain pre where j: "join2 p n = pre @ n" by blast
  from n(1) have "last n \<in> set n" by simp
  with n(2) have "last n \<noteq> CHR ''/''" by auto
  with n(1) show ?thesis unfolding j by simp
qed

lemma dirname_join2:
  assumes "valid_name n" and "d \<noteq> []" and "last d \<noteq> CHR ''/''"
  shows "dirname (join2 d n) = d"
proof -
  from assms(1) have n: "n \<noteq> []" "CHR ''/'' \<notin> set n" by (simp_all add: valid_name_def)
  then have hd: "hd n \<noteq> CHR ''/''" by (cases n) auto
  have j: "join2 d n = d @ CHR ''/'' # n" using assms(2,3) hd by (simp add: join2_def)
  have dw: "dropWhile (\<lambda>c. c \<noteq> CHR ''/'') (rev n @ CHR ''/'' # rev d) = CHR ''/'' # rev d"
    using n(2) by (simp add: dropWhile_upto)
  have hdr: "hd (rev d) \<noteq> CHR ''/''" using assms(2,3) by (simp add: hd_rev)
  then have dw2: "dropWhile (\<lambda>c. c = CHR ''/'') (rev d) = rev d"
    using assms(2) by (cases "rev d") auto
  from assms(2) have "last d \<in> set d" by simp
  with assms(3) have na: "\<not> list_all (\<lambda>c. c = CHR ''/'') d"
    by (auto simp: list_all_iff)
  show ?thesis
    unfolding j dirname_def Let_def
    by (simp add: dw rstrip_slash_def dw2 na)
qed

lemma foldl_join2_clean:
  assumes "list_all valid_name ns" and "ns \<noteq> []"
  shows "foldl join2 p ns \<noteq> [] \<and> last (foldl join2 p ns) \<noteq> CHR ''/'' \<and>
         basename (foldl join2 p ns) = last ns"
proof -
  from assms(2) obtain xs x where ns: "ns = xs @ [x]" by (metis rev_exhaust)
  with assms(1) have v: "valid_name x" by simp
  have "foldl join2 p ns = join2 (foldl join2 p xs) x" by (simp add: ns)
  with join2_clean[OF v] basename_join2[OF v] ns show ?thesis by simp
qed

section \<open>How the kernel reads a path text\<close>


lemma lookup_prefix_some:
  "lookup fs (p @ r) = Some t \<Longrightarrow> \<exists>s. lookup fs p = Some s"
  by (auto simp: lookup_append split: option.splits)

lemma lookup_butlast: "lookup fs p \<noteq> None \<Longrightarrow> lookup fs (butlast p) \<noteq> None"
proof (cases "p = []")
  case True
  then show ?thesis by simp
next
  case False
  assume "lookup fs p \<noteq> None"
  then obtain t where "lookup fs (butlast p @ [last p]) = Some t" using False by auto
  from lookup_prefix_some[OF this] show ?thesis by auto
qed

lemma lookup_child:
  "lookup fs p = Some (Dir es) \<Longrightarrow> lookup fs (p @ [n]) = map_of es n"
  by (simp add: lookup_append split: option.splits)


lemma locate_exists:
  "lookup fs place \<noteq> None \<Longrightarrow> locate fs place cs = Inr q \<Longrightarrow> lookup fs q \<noteq> None"
proof (induction cs arbitrary: place)
  case Nil
  then show ?case by simp
next
  case (Cons c cs)
  from Cons.prems obtain es where d: "lookup fs place = Some (Dir es)"
    by (auto split: option.splits node.splits)
  show ?case
  proof (cases "c = [] \<or> c = ''.''")
    case True
    with Cons.prems d have "locate fs place cs = Inr q" by auto
    from Cons.IH[OF Cons.prems(1) this] show ?thesis .
  next
    case nd: False
    show ?thesis
    proof (cases "c = ''..''")
      case True
      with Cons.prems d have "locate fs (butlast place) cs = Inr q" by simp
      from Cons.IH[OF lookup_butlast[OF Cons.prems(1)] this] show ?thesis .
    next
      case False
      with nd Cons.prems d obtain s where m: "map_of es c = Some s"
        and l: "locate fs (place @ [c]) cs = Inr q"
        by (auto split: option.splits)
      from lookup_child[OF d, of c] m have "lookup fs (place @ [c]) \<noteq> None" by simp
      from Cons.IH[OF this l] show ?thesis .
    qed
  qed
qed

lemma resolve_exists: "resolve fs p = Inr q \<Longrightarrow> lookup fs q \<noteq> None"
  using locate_exists[of fs "[]" "split_sep p" q]
  by (auto simp: resolve_def split: if_splits)

lemma exists_iff: "os_path_exists fs p \<longleftrightarrow> (\<exists>q. resolve fs p = Inr q)"
  using resolve_exists[of fs p]
  by (auto simp: os_path_exists_def stat_def split: sum.splits)





lemma parts_Nil [simp]: "parts [] = []"
  by (simp add: parts_def norm_step_def)













section \<open>Removing a tree\<close>



lemma strip_trailing_name [simp]: "n \<noteq> [] \<Longrightarrow> strip_trailing (xs @ [n]) = xs @ [n]"
  by (simp add: strip_trailing_def)




section \<open>Cleaning\<close>

lemma clean_one_frame [simp]:
  "environ (clean_one w d) = environ w" "proc_calls (clean_one w d) = proc_calls w"
  by (auto simp: clean_one_def Let_def split: prod.splits option.splits)
















text \<open>
  Claim C1, where the code departs from it. In this workspace the build ends with return
  code 0, and \<open>classes\<close> under the destination is a regular file: its removal, which
  \<open>_extract_artifacts\<close> makes before the \<open>try\<close> that guards the copy, raises, the
  exception reaches the handler of \<open>execute\<close>, and \<open>execute\<close> reports a failure with the
  text of the exception in place of the build log.
\<close>

theorem execute_destination_removal_failure:
  "fst (run_build demo_proc (demo_manager Map.empty)
          (clean_target_on_host (demo_manager Map.empty) blocked_world)) =
     Inr (0, ''BUILD SUCCESS'' @ [CHR 0x0A]) \<and>
   os_path_exists (fs_root blocked_world) (os_path_join ''/out'' [''classes'']) \<and>
   fst (execute demo_proc (demo_manager Map.empty) (Some ''/out'') blocked_world) =
     (False, ''[Errno 20] Not a directory: '' @ [CHR 0x27] @ ''/out/classes'' @ [CHR 0x27])"
  by code_simp

end
